theory Spec2Isabelle
  imports Complex_Main
begin

section \<open>Python values, errors and arithmetic\<close>

text \<open>
  The pricing agent of \<^verbatim>\<open>src/agent/pricing_agent.py\<close> works on Python dictionaries.
  A Python value is one of the constructors below. An \<^verbatim>\<open>int\<close> is an unbounded integer;
  a \<^verbatim>\<open>float\<close> is idealised as an exact rational (no rounding error, no NaN, no
  infinity). A dictionary has string keys and keeps its insertion order.
\<close>

datatype pyval =
    PNone
  | PBool bool
  | PInt int
  | PFloat rat
  | PStr string
  | PList "pyval list"
  | PTuple "pyval list"
  | PDict "(string \<times> pyval) list"

text \<open>
  Every exception of the source is a value. \<open>MissingFieldError\<close> is the error kind of
  the specification; no path of the source raises it. \<open>NanValue\<close> marks the one place
  where numpy yields NaN (the mean of an empty list), for which the rational model has no
  number. \<open>ValueError\<close> is what \<^verbatim>\<open>json.dump\<close> raises for an integer too long to print.
\<close>

datatype error =
    KeyError string
  | TypeError
  | ZeroDivisionError
  | OverflowError
  | FileNotFoundError string
  | MissingFieldError string
  | NanValue
  | ValueError

definition bindE :: "error + 'a \<Rightarrow> ('a \<Rightarrow> error + 'b) \<Rightarrow> error + 'b" where
  "bindE m f = (case m of Inl e \<Rightarrow> Inl e | Inr x \<Rightarrow> f x)"

text \<open>A number is an \<^verbatim>\<open>int\<close> (\<^verbatim>\<open>bool\<close> is a subclass of it) or a \<^verbatim>\<open>float\<close>.\<close>

datatype num = NInt int | NFloat rat

fun as_num :: "pyval \<Rightarrow> error + num" where
  "as_num (PInt i) = Inr (NInt i)"
| "as_num (PBool b) = Inr (NInt (if b then 1 else 0))"
| "as_num (PFloat r) = Inr (NFloat r)"
| "as_num PNone = Inl TypeError"
| "as_num (PStr s) = Inl TypeError"
| "as_num (PList xs) = Inl TypeError"
| "as_num (PTuple xs) = Inl TypeError"
| "as_num (PDict kvs) = Inl TypeError"

fun num_val :: "num \<Rightarrow> rat" where
  "num_val (NInt i) = of_int i"
| "num_val (NFloat r) = r"

text \<open>
  Converting an \<^verbatim>\<open>int\<close> to a \<^verbatim>\<open>float\<close> raises \<^verbatim>\<open>OverflowError\<close> when the integer rounds
  beyond the largest double, that is from \<open>2^1024 - 2^970\<close> on. True division of two
  integers raises it when the quotient does.
\<close>

definition dbl_limit :: rat where
  "dbl_limit = 2 ^ 1024 - 2 ^ 970"

definition int_to_float :: "int \<Rightarrow> error + rat" where
  "int_to_float i = (if dbl_limit \<le> \<bar>of_int i\<bar> then Inl OverflowError else Inr (of_int i))"

fun to_float :: "num \<Rightarrow> error + rat" where
  "to_float (NInt i) = int_to_float i"
| "to_float (NFloat r) = Inr r"

fun py_sub :: "num \<Rightarrow> num \<Rightarrow> error + num" where
  "py_sub (NInt a) (NInt b) = Inr (NInt (a - b))"
| "py_sub a b = bindE (to_float a) (\<lambda>x. bindE (to_float b) (\<lambda>y. Inr (NFloat (x - y))))"

fun py_truediv :: "num \<Rightarrow> num \<Rightarrow> error + rat" where
  "py_truediv (NInt a) (NInt b) =
     (if b = 0 then Inl ZeroDivisionError
      else if dbl_limit \<le> \<bar>of_int a / of_int b\<bar> then Inl OverflowError
      else Inr (of_int a / of_int b))"
| "py_truediv a b =
     bindE (to_float a) (\<lambda>x. bindE (to_float b) (\<lambda>y.
       if y = 0 then Inl ZeroDivisionError else Inr (x / y)))"

definition py_mul_float :: "num \<Rightarrow> rat \<Rightarrow> error + rat" where
  "py_mul_float a r = bindE (to_float a) (\<lambda>x. Inr (x * r))"

text \<open>Comparison of a number with an integer literal is exact, also for a float.\<close>

definition py_ge :: "num \<Rightarrow> int \<Rightarrow> bool" where
  "py_ge a k = (of_int k \<le> num_val a)"

definition py_lt :: "num \<Rightarrow> int \<Rightarrow> bool" where
  "py_lt a k = (num_val a < of_int k)"

text \<open>\<^verbatim>\<open>max(x, 1)\<close> keeps its first argument unless the second is greater.\<close>

definition py_max1 :: "num \<Rightarrow> num" where
  "py_max1 x = (if num_val x < 1 then NInt 1 else x)"

text \<open>
  \<^verbatim>\<open>round(x, n)\<close> on a float: to \<open>n\<close> decimal places, a tie going to the even
  neighbour.
\<close>

definition round_half_even :: "rat \<Rightarrow> int" where
  "round_half_even x =
     (let f = \<lfloor>x\<rfloor>; d = x - of_int f
      in if d < 1 / 2 then f else if 1 / 2 < d then f + 1 else if even f then f else f + 1)"

definition py_round :: "rat \<Rightarrow> nat \<Rightarrow> rat" where
  "py_round x n = of_int (round_half_even (x * 10 ^ n)) / 10 ^ n"

section \<open>Dictionaries\<close>

type_synonym applicant = "string \<Rightarrow> pyval option"

text \<open>\<^verbatim>\<open>applicant[k]\<close>: a missing key raises \<^verbatim>\<open>KeyError(k)\<close>.\<close>

definition lookup :: "applicant \<Rightarrow> string \<Rightarrow> error + pyval" where
  "lookup ap k = (case ap k of None \<Rightarrow> Inl (KeyError k) | Some v \<Rightarrow> Inr v)"

text \<open>\<^verbatim>\<open>applicant.get(k, d)\<close>.\<close>

definition get_default :: "applicant \<Rightarrow> string \<Rightarrow> pyval \<Rightarrow> pyval" where
  "get_default ap k d = (case ap k of None \<Rightarrow> d | Some v \<Rightarrow> v)"

text \<open>\<^verbatim>\<open>d[k]\<close> on a value of the decision history: only a dictionary has string keys.\<close>

fun get_item :: "pyval \<Rightarrow> string \<Rightarrow> error + pyval" where
  "get_item (PDict kvs) k = (case map_of kvs k of None \<Rightarrow> Inl (KeyError k) | Some v \<Rightarrow> Inr v)"
| "get_item PNone k = Inl TypeError"
| "get_item (PBool b) k = Inl TypeError"
| "get_item (PInt i) k = Inl TypeError"
| "get_item (PFloat r) k = Inl TypeError"
| "get_item (PStr s) k = Inl TypeError"
| "get_item (PList xs) k = Inl TypeError"
| "get_item (PTuple xs) k = Inl TypeError"

text \<open>A list and a dictionary are unhashable, and so is a tuple that holds one.\<close>

fun hashable :: "pyval \<Rightarrow> bool" where
  "hashable (PList xs) = False"
| "hashable (PDict kvs) = False"
| "hashable (PTuple xs) = (\<forall>x \<in> set xs. hashable x)"
| "hashable PNone = True"
| "hashable (PBool b) = True"
| "hashable (PInt i) = True"
| "hashable (PFloat r) = True"
| "hashable (PStr s) = True"

section \<open>The pricing agent\<close>

text \<open>
  The state of a \<^verbatim>\<open>DynamicPricingAgent\<close>: the config, the decision history and the running
  stats. The config is a dictionary: whatever the caller passed, or the default one. The
  base rates and the two rate limits are set by \<^verbatim>\<open>__init__\<close> and changed by no method, so
  they are constants here. The decision history is a list of arbitrary values:
  \<^verbatim>\<open>load_decisions\<close> puts there whatever the file holds.
\<close>

type_synonym config = "(string \<times> pyval) list"

record stats =
  total_decisions :: int
  avg_adjustment :: rat
  total_profit :: rat
  default_rate :: rat

record agent =
  config :: config
  decision_history :: "pyval list"
  stats :: stats

definition default_config :: config where
  "default_config =
     [(''risk_weight'', PFloat (6 / 10)), (''market_weight'', PFloat (3 / 10)),
      (''profit_weight'', PFloat (1 / 10)), (''learning_rate'', PFloat (1 / 100))]"

definition min_rate :: rat where
  "min_rate = 8 / 100"

definition max_rate :: rat where
  "max_rate = 36 / 100"

text \<open>
  \<^verbatim>\<open>__init__\<close>: \<^verbatim>\<open>config or self._default_config()\<close> (\<^verbatim>\<open>None\<close> and the empty dictionary
  are falsy), an empty history, zero stats.
\<close>

definition init_agent :: "config option \<Rightarrow> agent" where
  "init_agent c =
     \<lparr>config = (case c of
                  None \<Rightarrow> default_config
                | Some cfg \<Rightarrow> (if cfg = [] then default_config else cfg)),
      decision_history = [],
      stats = \<lparr>total_decisions = 0, avg_adjustment = 0, total_profit = 0, default_rate = 0\<rparr>\<rparr>"

text \<open>\<^verbatim>\<open>self.base_rates.get(country, 0.15)\<close>; the key has to be hashable.\<close>

definition base_rates :: "(string \<times> rat) list" where
  "base_rates = [(''USA'', 12 / 100), (''India'', 18 / 100)]"

definition base_rate_for :: "pyval \<Rightarrow> error + rat" where
  "base_rate_for c =
     (if \<not> hashable c then Inl TypeError
      else Inr (case c of
                  PStr s \<Rightarrow> (case map_of base_rates s of None \<Rightarrow> 15 / 100 | Some r \<Rightarrow> r)
                | _ \<Rightarrow> 15 / 100))"

text \<open>The normalisation of the credit score, shared by two methods of the source.\<close>

definition normalize_score :: "pyval \<Rightarrow> pyval \<Rightarrow> error + rat" where
  "normalize_score credit_score country =
     bindE (as_num credit_score) (\<lambda>cs.
     bindE (py_sub cs (NInt 300)) (\<lambda>d.
       if country = PStr ''USA'' then py_truediv d (NInt (850 - 300))
       else py_truediv d (NInt (900 - 300))))"

text \<open>\<^verbatim>\<open>applicant.get('existing_debt', 0) / max(applicant['income'], 1)\<close>.\<close>

definition debt_to_income :: "applicant \<Rightarrow> error + rat" where
  "debt_to_income ap =
     (let debt = get_default ap ''existing_debt'' (PInt 0) in
      bindE (lookup ap ''income'') (\<lambda>income.
      bindE (as_num income) (\<lambda>inc.
      bindE (as_num debt) (\<lambda>dn.
        py_truediv dn (py_max1 inc)))))"

definition calculate_risk_adjustment :: "applicant \<Rightarrow> error + rat" where
  "calculate_risk_adjustment ap =
     bindE (lookup ap ''credit_score'') (\<lambda>credit_score.
     bindE (lookup ap ''country'') (\<lambda>country.
     bindE (normalize_score credit_score country) (\<lambda>normalized_score.
     bindE (debt_to_income ap) (\<lambda>dti.
     bindE (lookup ap ''loan_amount'') (\<lambda>loan_amount.
     bindE (lookup ap ''income'') (\<lambda>income.
     bindE (as_num income) (\<lambda>inc.
     bindE (as_num loan_amount) (\<lambda>la.
     bindE (py_truediv la (py_max1 inc)) (\<lambda>lti.
       let risk_score = (1 - normalized_score) * (5 / 10) + min dti 1 * (3 / 10)
                          + min lti 1 * (2 / 10)
       in Inr (- (3 / 100) + risk_score * (11 / 100)))))))))))"

definition calculate_market_adjustment :: "applicant \<Rightarrow> error + rat" where
  "calculate_market_adjustment ap =
     bindE (lookup ap ''credit_score'') (\<lambda>credit_score.
     bindE (lookup ap ''country'') (\<lambda>country.
     bindE (as_num credit_score) (\<lambda>cs.
       if country = PStr ''USA'' then
         (if py_ge cs 750 then Inr (- (2 / 100))
          else if py_ge cs 700 then Inr (- (1 / 100))
          else Inr 0)
       else
         (if py_ge cs 800 then Inr (- (2 / 100))
          else if py_ge cs 750 then Inr (- (1 / 100))
          else Inr 0))))"

definition calculate_profit_adjustment :: "applicant \<Rightarrow> error + rat" where
  "calculate_profit_adjustment ap =
     bindE (lookup ap ''loan_amount'') (\<lambda>loan_amount.
     bindE (as_num loan_amount) (\<lambda>la.
       if py_ge la 25000 then Inr (- (5 / 1000))
       else if py_ge la 15000 then Inr (- (25 / 10000))
       else Inr 0))"

definition estimate_default_probability :: "applicant \<Rightarrow> error + rat" where
  "estimate_default_probability ap =
     bindE (lookup ap ''credit_score'') (\<lambda>credit_score.
     bindE (lookup ap ''country'') (\<lambda>country.
     bindE (normalize_score credit_score country) (\<lambda>normalized.
     bindE (debt_to_income ap) (\<lambda>dti.
       let default_prob = (25 / 100) * (1 - normalized) + dti * (1 / 10)
       in Inr (min default_prob (99 / 100))))))"

definition calculate_expected_profit :: "pyval \<Rightarrow> rat \<Rightarrow> rat \<Rightarrow> error + rat" where
  "calculate_expected_profit loan_amount rate default_prob =
     bindE (as_num loan_amount) (\<lambda>la.
     bindE (py_mul_float la rate) (\<lambda>interest_income.
     bindE (py_mul_float la (4 / 10)) (\<lambda>loss_if_default.
       Inr (interest_income * (1 - default_prob) - loss_if_default * default_prob))))"

text \<open>
  The reasons of a decision, in the fixed order risk, market, profit, credit score. The
  source's literals for the first, second, market and profit reasons start with a
  pictograph; the model keeps the ASCII text after it.
\<close>

definition generate_reasoning :: "rat \<Rightarrow> rat \<Rightarrow> rat \<Rightarrow> applicant \<Rightarrow> error + string list" where
  "generate_reasoning risk_adj market_adj profit_adj ap =
     (let r1 = (if risk_adj < - (1 / 100)
                  then [''Excellent credit profile - reduced risk premium'']
                else if 5 / 100 < risk_adj
                  then [''Higher risk profile - increased rate for protection'']
                else [''Standard risk assessment'']);
          r2 = (if market_adj < 0 then [''Competitive rate to win quality applicant''] else []);
          r3 = (if profit_adj < 0 then [''Volume discount for larger loan amount''] else [])
      in bindE (lookup ap ''credit_score'') (\<lambda>score.
         bindE (lookup ap ''country'') (\<lambda>country.
         bindE (as_num score) (\<lambda>sc.
           Inr (r1 @ r2 @ r3 @
                (if country = PStr ''USA'' then
                   (if py_ge sc 750 then [''Excellent FICO score (750+)'']
                    else if py_lt sc 650 then [''Below-average FICO score'']
                    else [])
                 else
                   (if py_ge sc 800 then [''Excellent CIBIL score (800+)'']
                    else if py_lt sc 700 then [''Below-average CIBIL score'']
                    else [])))))))"

text \<open>
  \<^verbatim>\<open>[d[k] for d in ds]\<close> and \<^verbatim>\<open>np.mean\<close> of the collected values. numpy turns every
  number into a double; what it does with nested sequences is not modelled (the model
  reports \<^verbatim>\<open>TypeError\<close> for every value that is not a number).
\<close>

fun collect :: "pyval list \<Rightarrow> string \<Rightarrow> error + pyval list" where
  "collect [] k = Inr []"
| "collect (d # ds) k =
     bindE (get_item d k) (\<lambda>v. bindE (collect ds k) (\<lambda>vs. Inr (v # vs)))"

fun floats_of :: "pyval list \<Rightarrow> error + rat list" where
  "floats_of [] = Inr []"
| "floats_of (v # vs) =
     bindE (as_num v) (\<lambda>n. bindE (to_float n) (\<lambda>x.
     bindE (floats_of vs) (\<lambda>xs. Inr (x # xs))))"

definition np_mean :: "pyval list \<Rightarrow> error + rat" where
  "np_mean vs =
     bindE (floats_of vs) (\<lambda>xs.
       if xs = [] then Inl NanValue else Inr (sum_list xs / of_nat (length xs)))"

text \<open>
  \<^verbatim>\<open>_log_decision\<close>: append, count, recompute the mean adjustment over the whole history,
  add the expected profit. The state of the agent at an exception is not tracked.
\<close>

definition log_decision :: "agent \<Rightarrow> pyval \<Rightarrow> error + agent" where
  "log_decision ag decision =
     (let h = decision_history ag @ [decision];
          n = total_decisions (stats ag) + 1
      in bindE (collect h ''total_adjustment'') (\<lambda>vs.
         bindE (np_mean vs) (\<lambda>avg.
         bindE (get_item decision ''expected_profit'') (\<lambda>p.
         bindE (as_num p) (\<lambda>pn.
         bindE (to_float pn) (\<lambda>pf.
           Inr (ag\<lparr>decision_history := h,
                   stats := (stats ag)\<lparr>total_decisions := n, avg_adjustment := avg,
                                         total_profit := total_profit (stats ag) + pf\<rparr>\<rparr>)))))))"

text \<open>
  \<^verbatim>\<open>self.config[k]\<close> raises \<^verbatim>\<open>KeyError\<close> for a key the config lacks. An adjustment is a
  float, and \<^verbatim>\<open>adjustment * self.config[k]\<close> turns an integer weight into a float first
  (\<^verbatim>\<open>OverflowError\<close> beyond the range of a double); a weight that is no number gives
  \<^verbatim>\<open>TypeError\<close>. The three products are evaluated from left to right.
\<close>

definition config_item :: "config \<Rightarrow> string \<Rightarrow> error + pyval" where
  "config_item cfg k = (case map_of cfg k of None \<Rightarrow> Inl (KeyError k) | Some v \<Rightarrow> Inr v)"

definition weighted :: "rat \<Rightarrow> config \<Rightarrow> string \<Rightarrow> error + rat" where
  "weighted adjustment cfg k =
     bindE (config_item cfg k) (\<lambda>w. bindE (as_num w) (\<lambda>n. py_mul_float n adjustment))"

definition combine_adjustments :: "config \<Rightarrow> rat \<Rightarrow> rat \<Rightarrow> rat \<Rightarrow> error + rat" where
  "combine_adjustments cfg risk_adjustment market_adjustment profit_adjustment =
     bindE (weighted risk_adjustment cfg ''risk_weight'') (\<lambda>a.
     bindE (weighted market_adjustment cfg ''market_weight'') (\<lambda>b.
     bindE (weighted profit_adjustment cfg ''profit_weight'') (\<lambda>c.
       Inr (a + b + c))))"

text \<open>
  \<^verbatim>\<open>calculate_rate\<close>. The clock is an input: \<open>now\<close> is the text of
  \<^verbatim>\<open>datetime.now().isoformat()\<close>. The result is the decision and the agent after logging it.
\<close>

definition calculate_rate :: "agent \<Rightarrow> applicant \<Rightarrow> string \<Rightarrow> error + (pyval \<times> agent)" where
  "calculate_rate ag ap now =
     bindE (lookup ap ''country'') (\<lambda>country.
     bindE (base_rate_for country) (\<lambda>base_rate.
     bindE (calculate_risk_adjustment ap) (\<lambda>risk_adjustment.
     bindE (calculate_market_adjustment ap) (\<lambda>market_adjustment.
     bindE (calculate_profit_adjustment ap) (\<lambda>profit_adjustment.
     bindE (combine_adjustments (config ag) risk_adjustment market_adjustment
              profit_adjustment) (\<lambda>total_adjustment.
       let final_rate = max min_rate (min max_rate (base_rate + total_adjustment)) in
     bindE (estimate_default_probability ap) (\<lambda>default_prob.
     bindE (lookup ap ''loan_amount'') (\<lambda>loan_amount.
     bindE (calculate_expected_profit loan_amount final_rate default_prob) (\<lambda>expected_profit.
     bindE (lookup ap ''credit_score'') (\<lambda>credit_score.
     bindE (generate_reasoning risk_adjustment market_adjustment profit_adjustment ap)
       (\<lambda>reasoning.
       let decision = PDict
             [(''timestamp'', PStr now),
              (''applicant_id'', get_default ap ''id'' (PStr ''unknown'')),
              (''country'', country),
              (''credit_score'', credit_score),
              (''loan_amount'', loan_amount),
              (''base_rate'', PFloat (py_round base_rate 4)),
              (''risk_adjustment'', PFloat (py_round risk_adjustment 4)),
              (''market_adjustment'', PFloat (py_round market_adjustment 4)),
              (''profit_adjustment'', PFloat (py_round profit_adjustment 4)),
              (''total_adjustment'', PFloat (py_round total_adjustment 4)),
              (''final_rate'', PFloat (py_round final_rate 4)),
              (''default_probability'', PFloat (py_round default_prob 4)),
              (''expected_profit'', PFloat (py_round expected_profit 2)),
              (''reasoning'', PList (map PStr reasoning))]
       in bindE (log_decision ag decision) (\<lambda>ag'. Inr (decision, ag')))))))))))))"

text \<open>
  \<^verbatim>\<open>get_statistics\<close>: the running stats dictionary itself when the history is empty,
  otherwise a fresh dictionary over \<^verbatim>\<open>decision_history[-100:]\<close>.
\<close>

definition stats_dict :: "stats \<Rightarrow> (string \<times> pyval) list" where
  "stats_dict s =
     [(''total_decisions'', PInt (total_decisions s)),
      (''avg_adjustment'', PFloat (avg_adjustment s)),
      (''total_profit'', PFloat (total_profit s)),
      (''default_rate'', PFloat (default_rate s))]"

definition last_n :: "nat \<Rightarrow> 'a list \<Rightarrow> 'a list" where
  "last_n n xs = drop (length xs - n) xs"

definition mean_of :: "pyval list \<Rightarrow> string \<Rightarrow> error + rat" where
  "mean_of ds k = bindE (collect ds k) np_mean"

definition get_statistics :: "agent \<Rightarrow> error + (string \<times> pyval) list" where
  "get_statistics ag =
     (if decision_history ag = [] then Inr (stats_dict (stats ag))
      else
        let recent_decisions = last_n 100 (decision_history ag) in
        bindE (mean_of recent_decisions ''total_adjustment'') (\<lambda>a.
        bindE (mean_of recent_decisions ''final_rate'') (\<lambda>f.
        bindE (mean_of recent_decisions ''default_probability'') (\<lambda>p.
          Inr [(''total_decisions'', PInt (total_decisions (stats ag))),
               (''avg_rate_adjustment'', PFloat (py_round a 4)),
               (''avg_final_rate'', PFloat (py_round f 4)),
               (''total_expected_profit'', PFloat (py_round (total_profit (stats ag)) 2)),
               (''avg_default_probability'', PFloat (py_round p 4))]))))"

section \<open>Export and import of the history\<close>

text \<open>
  \<^verbatim>\<open>json.dump\<close> and \<^verbatim>\<open>json.load\<close> are modelled on JSON values, not on their text: a
  number written without fraction or exponent is a \<open>JInt\<close> and reads back as an
  \<^verbatim>\<open>int\<close>, any other number is a \<open>JReal\<close> and reads back as a \<^verbatim>\<open>float\<close>. A tuple is
  written as an array, like a list. A file holds the JSON array that
  \<^verbatim>\<open>export_decisions\<close> writes; every path is writable, and reading a path that holds
  nothing raises \<^verbatim>\<open>FileNotFoundError\<close>. \<^verbatim>\<open>json.dump\<close> prints an integer through its
  decimal text, and CPython refuses that with \<^verbatim>\<open>ValueError\<close> for an integer of more than
  4300 digits; then nothing is exported (what is left of the file is not tracked).
\<close>

datatype json =
    JNull
  | JBool bool
  | JInt int
  | JReal rat
  | JStr string
  | JArr "json list"
  | JObj "(string \<times> json) list"

primrec to_json :: "pyval \<Rightarrow> json" where
  "to_json PNone = JNull"
| "to_json (PBool b) = JBool b"
| "to_json (PInt i) = JInt i"
| "to_json (PFloat r) = JReal r"
| "to_json (PStr s) = JStr s"
| "to_json (PList xs) = JArr (map to_json xs)"
| "to_json (PTuple xs) = JArr (map to_json xs)"
| "to_json (PDict kvs) = JObj (map (map_prod id to_json) kvs)"

primrec of_json :: "json \<Rightarrow> pyval" where
  "of_json JNull = PNone"
| "of_json (JBool b) = PBool b"
| "of_json (JInt i) = PInt i"
| "of_json (JReal r) = PFloat r"
| "of_json (JStr s) = PStr s"
| "of_json (JArr xs) = PList (map of_json xs)"
| "of_json (JObj kvs) = PDict (map (map_prod id of_json) kvs)"

type_synonym filesystem = "string \<Rightarrow> json list option"

definition int_str_limit :: int where
  "int_str_limit = 10 ^ 4300"

fun printable :: "pyval \<Rightarrow> bool" where
  "printable (PInt i) = (\<bar>i\<bar> < int_str_limit)"
| "printable (PList xs) = (\<forall>x \<in> set xs. printable x)"
| "printable (PTuple xs) = (\<forall>x \<in> set xs. printable x)"
| "printable (PDict kvs) = (\<forall>kv \<in> set kvs. printable (snd kv))"
| "printable PNone = True"
| "printable (PBool b) = True"
| "printable (PFloat r) = True"
| "printable (PStr s) = True"

definition export_decisions :: "agent \<Rightarrow> filesystem \<Rightarrow> string \<Rightarrow> error + filesystem" where
  "export_decisions ag fs filepath =
     (if list_all printable (decision_history ag)
      then Inr (fs(filepath \<mapsto> map to_json (decision_history ag)))
      else Inl ValueError)"

definition load_decisions :: "agent \<Rightarrow> filesystem \<Rightarrow> string \<Rightarrow> error + agent" where
  "load_decisions ag fs filepath =
     (case fs filepath of
        None \<Rightarrow> Inl (FileNotFoundError filepath)
      | Some js \<Rightarrow> Inr (ag\<lparr>decision_history := map of_json js\<rparr>))"

text \<open>The values that JSON has a form of its own for: everything but a tuple.\<close>

fun json_native :: "pyval \<Rightarrow> bool" where
  "json_native (PTuple xs) = False"
| "json_native (PList xs) = (\<forall>x \<in> set xs. json_native x)"
| "json_native (PDict kvs) = (\<forall>kv \<in> set kvs. json_native (snd kv))"
| "json_native PNone = True"
| "json_native (PBool b) = True"
| "json_native (PInt i) = True"
| "json_native (PFloat r) = True"
| "json_native (PStr s) = True"

section \<open>Concrete inputs\<close>

text \<open>
  Scenario A of the specification: the USA applicant of the source's example, with or
  without an \<^verbatim>\<open>id\<close>; the decision and the agent that pricing it on a fresh agent gives.
\<close>

definition scenario :: "pyval option \<Rightarrow> applicant" where
  "scenario i =
     [''country'' \<mapsto> PStr ''USA'', ''credit_score'' \<mapsto> PInt 720, ''income'' \<mapsto> PInt 85000,
      ''loan_amount'' \<mapsto> PInt 15000, ''existing_debt'' \<mapsto> PInt 12000](''id'' := i)"

definition scenario_a :: applicant where
  "scenario_a = scenario None"

definition scenario_decision :: "pyval option \<Rightarrow> string \<Rightarrow> pyval" where
  "scenario_decision i now = PDict
     [(''timestamp'', PStr now),
      (''applicant_id'', (case i of None \<Rightarrow> PStr ''unknown'' | Some v \<Rightarrow> v)),
      (''country'', PStr ''USA''), (''credit_score'', PInt 720),
      (''loan_amount'', PInt 15000), (''base_rate'', PFloat (12 / 100)),
      (''risk_adjustment'', PFloat (- (85 / 10000))),
      (''market_adjustment'', PFloat (- (1 / 100))),
      (''profit_adjustment'', PFloat (- (25 / 10000))),
      (''total_adjustment'', PFloat (- (83 / 10000))),
      (''final_rate'', PFloat (1117 / 10000)),
      (''default_probability'', PFloat (732 / 10000)),
      (''expected_profit'', PFloat (111324 / 100)),
      (''reasoning'',
       PList [PStr ''Standard risk assessment'',
              PStr ''Competitive rate to win quality applicant'',
              PStr ''Volume discount for larger loan amount''])]"

definition scenario_agent :: "pyval option \<Rightarrow> string \<Rightarrow> agent" where
  "scenario_agent i now =
     \<lparr>config = default_config, decision_history = [scenario_decision i now],
      stats = \<lparr>total_decisions = 1, avg_adjustment = - (83 / 10000),
               total_profit = 111324 / 100, default_rate = 0\<rparr>\<rparr>"

section \<open>Predicates on applicants\<close>

text \<open>The value of a numeric field of the applicant, if it is there and is a number.\<close>

definition num_field :: "applicant \<Rightarrow> string \<Rightarrow> rat option" where
  "num_field ap k =
     (case ap k of
        None \<Rightarrow> None
      | Some v \<Rightarrow> (case as_num v of Inl e \<Rightarrow> None | Inr n \<Rightarrow> Some (num_val n)))"

text \<open>
  A valid applicant: the credit score lies in the range of the country's score (FICO
  300 to 850 for the USA, CIBIL 300 to 900 otherwise), the income is not negative, and
  neither is the existing debt when there is one.
\<close>

definition valid_applicant :: "applicant \<Rightarrow> bool" where
  "valid_applicant ap =
     ((case num_field ap ''credit_score'' of
         None \<Rightarrow> False
       | Some cs \<Rightarrow> 300 \<le> cs \<and> cs \<le> (if ap ''country'' = Some (PStr ''USA'') then 850 else 900))
      \<and> (case num_field ap ''income'' of None \<Rightarrow> False | Some inc \<Rightarrow> 0 \<le> inc)
      \<and> (case ap ''existing_debt'' of
           None \<Rightarrow> True
         | Some v \<Rightarrow> (case num_field ap ''existing_debt'' of None \<Rightarrow> False | Some d \<Rightarrow> 0 \<le> d)))"

text \<open>An applicant outside the valid range: a FICO score of 900.\<close>

definition high_score :: applicant where
  "high_score = [''country'' \<mapsto> PStr ''USA'', ''credit_score'' \<mapsto> PInt 900,
     ''income'' \<mapsto> PInt 85000, ''loan_amount'' \<mapsto> PInt 15000]"

text \<open>
  A number that converts to a double without overflow: a float, a bool, or an integer
  below the limit.
\<close>

definition in_double_range :: "pyval \<Rightarrow> bool" where
  "in_double_range v =
     (case v of
        PInt i \<Rightarrow> \<bar>of_int i\<bar> < dbl_limit
      | PBool b \<Rightarrow> True
      | PFloat r \<Rightarrow> True
      | _ \<Rightarrow> False)"

definition present_in_range :: "applicant \<Rightarrow> string \<Rightarrow> bool" where
  "present_in_range ap k = (case ap k of None \<Rightarrow> False | Some v \<Rightarrow> in_double_range v)"

definition country_ok :: "applicant \<Rightarrow> bool" where
  "country_ok ap = (case ap ''country'' of None \<Rightarrow> False | Some c \<Rightarrow> hashable c)"

definition debt_ok :: "applicant \<Rightarrow> bool" where
  "debt_ok ap = (case ap ''existing_debt'' of None \<Rightarrow> True | Some v \<Rightarrow> in_double_range v)"

text \<open>
  The applicants that pricing is defined on: the country is there and hashable, the three
  numeric fields are there and in range, and so is the existing debt when it is given.
\<close>

definition fields_ok :: "applicant \<Rightarrow> bool" where
  "fields_ok ap =
     (country_ok ap \<and> present_in_range ap ''credit_score'' \<and> present_in_range ap ''income''
      \<and> present_in_range ap ''loan_amount'' \<and> debt_ok ap)"

text \<open>
  The configs that pricing is defined on: the three weights are there and in range.
\<close>

definition weight_ok :: "config \<Rightarrow> string \<Rightarrow> bool" where
  "weight_ok cfg k = (case map_of cfg k of None \<Rightarrow> False | Some v \<Rightarrow> in_double_range v)"

definition config_ok :: "agent \<Rightarrow> bool" where
  "config_ok ag =
     (weight_ok (config ag) ''risk_weight'' \<and> weight_ok (config ag) ''market_weight''
      \<and> weight_ok (config ag) ''profit_weight'')"

text \<open>
  The histories that logging is defined on: every entry is a dictionary with a
  \<open>total_adjustment\<close> in range. The empty history is one, and pricing keeps it so.
\<close>

definition entry_ok :: "pyval \<Rightarrow> bool" where
  "entry_ok d = (case get_item d ''total_adjustment'' of Inl e \<Rightarrow> False | Inr v \<Rightarrow> in_double_range v)"

definition history_ok :: "agent \<Rightarrow> bool" where
  "history_ok ag = list_all entry_ok (decision_history ag)"




text \<open>The scenario's applicant with a country the agent has no base rate for.\<close>

definition canada_applicant :: applicant where
  "canada_applicant = (scenario None)(''country'' \<mapsto> PStr ''Canada'')"

text \<open>
  The required fields in the order in which \<^verbatim>\<open>calculate_rate\<close> first reads them, the first
  of them that an applicant lacks, and what has to hold of the fields read before a
  missing one for the lookup of that one to be reached.
\<close>

definition required_fields :: "string list" where
  "required_fields = [''country'', ''credit_score'', ''income'', ''loan_amount'']"

definition first_missing :: "applicant \<Rightarrow> string option" where
  "first_missing ap = find (\<lambda>k. ap k = None) required_fields"

definition reads_ok :: "applicant \<Rightarrow> string \<Rightarrow> bool" where
  "reads_ok ap f =
     ((f = ''credit_score'' \<longrightarrow> country_ok ap)
      \<and> (f = ''income'' \<longrightarrow> country_ok ap \<and> present_in_range ap ''credit_score'')
      \<and> (f = ''loan_amount'' \<longrightarrow>
            country_ok ap \<and> present_in_range ap ''credit_score''
            \<and> present_in_range ap ''income'' \<and> debt_ok ap))"

text \<open>The scenario's applicant without an income.\<close>

definition no_income :: applicant where
  "no_income = (scenario None)(''income'' := None)"

text \<open>The scenario's applicant without a loan amount.\<close>

definition no_loan_amount :: applicant where
  "no_loan_amount = (scenario None)(''loan_amount'' := None)"

text \<open>An applicant id that is a tuple, and the same id as a list.\<close>

definition tuple_id :: pyval where
  "tuple_id = PTuple [PStr ''USA'', PInt 1]"

definition list_id :: pyval where
  "list_id = PList [PStr ''USA'', PInt 1]"

text \<open>The key sets of the two results of \<^verbatim>\<open>get_statistics\<close>.\<close>

definition stats_keys :: "string list" where
  "stats_keys = [''total_decisions'', ''avg_adjustment'', ''total_profit'', ''default_rate'']"

definition summary_keys :: "string list" where
  "summary_keys =
     [''total_decisions'', ''avg_rate_adjustment'', ''avg_final_rate'',
      ''total_expected_profit'', ''avg_default_probability'']"

text \<open>The agent of the scenario after a file holding the empty array has been loaded.\<close>

definition emptied_agent :: "string \<Rightarrow> agent" where
  "emptied_agent now = (scenario_agent None now)\<lparr>decision_history := []\<rparr>"

section \<open>Sequences of logged decisions\<close>

text \<open>
  A decision that the statistics are defined on has the four numeric fields that
  \<^verbatim>\<open>_log_decision\<close> and \<^verbatim>\<open>get_statistics\<close> read; \<open>numf\<close> is the value of such a field.
\<close>

definition field_ok :: "pyval \<Rightarrow> string \<Rightarrow> bool" where
  "field_ok d k = (case get_item d k of Inl e \<Rightarrow> False | Inr v \<Rightarrow> in_double_range v)"

definition decision_ok :: "pyval \<Rightarrow> bool" where
  "decision_ok d =
     (field_ok d ''total_adjustment'' \<and> field_ok d ''final_rate''
      \<and> field_ok d ''default_probability'' \<and> field_ok d ''expected_profit'')"

definition numf :: "pyval \<Rightarrow> string \<Rightarrow> rat" where
  "numf d k =
     (case get_item d k of
        Inl e \<Rightarrow> 0
      | Inr v \<Rightarrow> (case as_num v of Inl e \<Rightarrow> 0 | Inr n \<Rightarrow> num_val n))"

definition average :: "rat list \<Rightarrow> rat" where
  "average xs = sum_list xs / of_nat (length xs)"

text \<open>Appending decisions one after the other, as successive pricing calls do.\<close>

fun log_all :: "agent \<Rightarrow> pyval list \<Rightarrow> error + agent" where
  "log_all ag [] = Inr ag"
| "log_all ag (d # ds) = bindE (log_decision ag d) (\<lambda>ag'. log_all ag' ds)"

text \<open>A decision unlike the scenario's, to go first in a long history.\<close>

definition early_decision :: pyval where
  "early_decision = PDict
     [(''total_adjustment'', PFloat (5 / 100)), (''final_rate'', PFloat (36 / 100)),
      (''default_probability'', PFloat (1 / 2)), (''expected_profit'', PFloat (- 1000))]"

definition long_history :: "pyval list" where
  "long_history = early_decision # replicate 100 (scenario_decision None ''2025-01-01T00:00:00'')"

section \<open>Sessions\<close>

text \<open>
  The applicant fields that a decision copies, typed as callers pass them: the id and
  the country are strings, the credit score is an integer, the loan amount an integer or
  a float. A field that is absent is not constrained.
\<close>

fun is_str :: "pyval \<Rightarrow> bool" where
  "is_str (PStr s) = True"
| "is_str PNone = False"
| "is_str (PBool b) = False"
| "is_str (PInt i) = False"
| "is_str (PFloat r) = False"
| "is_str (PList xs) = False"
| "is_str (PTuple xs) = False"
| "is_str (PDict kvs) = False"

fun is_int :: "pyval \<Rightarrow> bool" where
  "is_int (PInt i) = True"
| "is_int PNone = False"
| "is_int (PBool b) = False"
| "is_int (PFloat r) = False"
| "is_int (PStr s) = False"
| "is_int (PList xs) = False"
| "is_int (PTuple xs) = False"
| "is_int (PDict kvs) = False"

fun is_real :: "pyval \<Rightarrow> bool" where
  "is_real (PInt i) = True"
| "is_real (PFloat r) = True"
| "is_real PNone = False"
| "is_real (PBool b) = False"
| "is_real (PStr s) = False"
| "is_real (PList xs) = False"
| "is_real (PTuple xs) = False"
| "is_real (PDict kvs) = False"

definition typed_field :: "applicant \<Rightarrow> string \<Rightarrow> (pyval \<Rightarrow> bool) \<Rightarrow> bool" where
  "typed_field ap k P = (case ap k of None \<Rightarrow> True | Some v \<Rightarrow> P v)"

definition typed_applicant :: "applicant \<Rightarrow> bool" where
  "typed_applicant ap =
     (typed_field ap ''id'' is_str \<and> typed_field ap ''country'' is_str
      \<and> typed_field ap ''credit_score'' is_int \<and> typed_field ap ''loan_amount'' is_real)"

text \<open>
  A session is a sequence of calls of the three methods that read or write the decision
  history, on one agent and one file system; a call that raises ends it.
\<close>

datatype action = Price applicant string | Export string | Load string

fun typed_action :: "action \<Rightarrow> bool" where
  "typed_action (Price ap now) = typed_applicant ap"
| "typed_action (Export filepath) = True"
| "typed_action (Load filepath) = True"

fun step :: "action \<Rightarrow> agent \<times> filesystem \<Rightarrow> error + agent \<times> filesystem" where
  "step (Price ap now) (ag, fs) = bindE (calculate_rate ag ap now) (\<lambda>r. Inr (snd r, fs))"
| "step (Export filepath) (ag, fs) =
     bindE (export_decisions ag fs filepath) (\<lambda>fs'. Inr (ag, fs'))"
| "step (Load filepath) (ag, fs) =
     bindE (load_decisions ag fs filepath) (\<lambda>ag'. Inr (ag', fs))"

fun run :: "action list \<Rightarrow> agent \<times> filesystem \<Rightarrow> error + agent \<times> filesystem" where
  "run [] st = Inr st"
| "run (a # as) st = bindE (step a st) (run as)"

text \<open>
  A value that \<^verbatim>\<open>json.dump\<close> prints and \<^verbatim>\<open>json.load\<close> reads back as it was, and a state
  whose history and files hold only such values.
\<close>

definition storable :: "pyval \<Rightarrow> bool" where
  "storable v = (json_native v \<and> printable v)"

definition stored_ok :: "agent \<times> filesystem \<Rightarrow> bool" where
  "stored_ok st =
     (list_all storable (decision_history (fst st))
      \<and> (\<forall>p js. snd st p = Some js \<longrightarrow> list_all storable (map of_json js)))"

definition session :: "action list" where
  "session = [Price (scenario None) ''2025-01-01T00:00:00'', Export ''d.json'', Load ''d.json'']"

definition big_score_history :: "pyval list" where
  "big_score_history = [PDict [(''credit_score'', PInt int_str_limit)]]"

section \<open>Basic facts\<close>

lemma bindE_Inr [simp]: "bindE (Inr x) f = f x"
  by (simp add: bindE_def)

lemma bindE_Inl [simp]: "bindE (Inl e) f = Inl e"
  by (simp add: bindE_def)

lemma bindE_eq_Inr: "bindE m f = Inr y \<longleftrightarrow> (\<exists>x. m = Inr x \<and> f x = Inr y)"
  by (cases m) simp_all

lemma dbl_limit_large: "2 ^ 1000 \<le> dbl_limit"
  by (simp add: dbl_limit_def)

lemma int_to_float_small: "\<bar>i\<bar> \<le> 2 ^ 1000 - 1 \<Longrightarrow> int_to_float i = Inr (of_int i)"
proof -
  assume "\<bar>i\<bar> \<le> 2 ^ 1000 - 1"
  then have "\<bar>i\<bar> < 2 ^ 1000" by simp
  then have "\<bar>of_int i :: rat\<bar> < of_int (2 ^ 1000)" by (metis of_int_abs of_int_less_iff)
  then have "\<bar>of_int i :: rat\<bar> < dbl_limit" using dbl_limit_large by simp
  then show ?thesis by (simp add: int_to_float_def)
qed

lemma truediv_small:
  "b \<noteq> 0 \<Longrightarrow> \<bar>a\<bar> \<le> 2 ^ 1000 - 1 \<Longrightarrow> py_truediv (NInt a) (NInt b) = Inr (of_int a / of_int b)"
proof -
  assume b: "b \<noteq> 0" and a: "\<bar>a\<bar> \<le> 2 ^ 1000 - 1"
  have "\<bar>of_int a / of_int b :: rat\<bar> \<le> \<bar>of_int a\<bar>"
  proof -
    have "1 \<le> \<bar>of_int b :: rat\<bar>" using b by (metis of_int_abs of_int_1_le_iff zero_less_abs_iff int_one_le_iff_zero_less)
    then have "\<bar>of_int a :: rat\<bar> / \<bar>of_int b\<bar> \<le> \<bar>of_int a\<bar> / 1"
      by (intro divide_left_mono) simp_all
    then show ?thesis by simp
  qed
  also have "\<dots> < of_int (2 ^ 1000)" using a by (metis of_int_abs of_int_less_iff zle_diff1_eq)
  also have "\<dots> \<le> dbl_limit" using dbl_limit_large by simp
  finally show ?thesis using b by simp
qed

declare py_truediv.simps [simp del]


section \<open>Rounding\<close>

lemma round_half_even_floor: "\<lfloor>x\<rfloor> \<le> round_half_even x"
  by (simp add: round_half_even_def Let_def)

lemma round_half_even_ceiling: "round_half_even x \<le> \<lceil>x\<rceil>"
proof -
  have "\<lfloor>x\<rfloor> + 1 \<le> \<lceil>x\<rceil>" if "x \<noteq> of_int \<lfloor>x\<rfloor>"
    using that by (metis ceiling_altdef order_refl)
  then show ?thesis
    by (auto simp: round_half_even_def Let_def ceiling_altdef)
qed

lemma round_half_even_lower: "of_int a \<le> x \<Longrightarrow> a \<le> round_half_even x"
proof -
  assume "of_int a \<le> x"
  then have "a \<le> \<lfloor>x\<rfloor>" by (simp add: le_floor_iff)
  then show ?thesis using round_half_even_floor [of x] by linarith
qed

lemma round_half_even_upper: "x \<le> of_int b \<Longrightarrow> round_half_even x \<le> b"
  using round_half_even_ceiling [of x] by (meson ceiling_le_iff order_trans)

lemma round_half_even_near:
  "of_int k - 1 / 2 < x \<Longrightarrow> x < of_int k + 1 / 2 \<Longrightarrow> round_half_even x = k"
proof -
  assume a: "of_int k - 1 / 2 < x" and b: "x < of_int k + 1 / 2"
  show ?thesis
  proof (cases "of_int k \<le> x")
    case True
    then have f: "\<lfloor>x\<rfloor> = k" using b by (simp add: floor_unique)
    then show ?thesis using b by (simp add: round_half_even_def Let_def)
  next
    case False
    then have f: "\<lfloor>x\<rfloor> = k - 1" using a by (simp add: floor_unique)
    then show ?thesis using a False by (simp add: round_half_even_def Let_def)
  qed
qed

lemma py_round_bounds:
  "of_int a / 10 ^ n \<le> x \<Longrightarrow> x \<le> of_int b / 10 ^ n \<Longrightarrow>
     of_int a / 10 ^ n \<le> py_round x n \<and> py_round x n \<le> of_int b / 10 ^ n"
proof -
  assume a: "of_int a / 10 ^ n \<le> x" and b: "x \<le> of_int b / 10 ^ n"
  have p: "(0::rat) < 10 ^ n" by simp
  from a have "of_int a \<le> x * 10 ^ n" using p by (simp add: pos_divide_le_eq)
  then have 1: "a \<le> round_half_even (x * 10 ^ n)" by (rule round_half_even_lower)
  from b have "x * 10 ^ n \<le> of_int b" using p by (simp add: pos_le_divide_eq)
  then have 2: "round_half_even (x * 10 ^ n) \<le> b" by (rule round_half_even_upper)
  show ?thesis using 1 2 p by (simp add: py_round_def divide_le_cancel)
qed

lemma py_round_near:
  "of_int k - 1 / 2 < x * 10 ^ n \<Longrightarrow> x * 10 ^ n < of_int k + 1 / 2 \<Longrightarrow>
     py_round x n = of_int k / 10 ^ n"
  by (simp add: py_round_def round_half_even_near)

section \<open>Import of a history\<close>

text \<open>
  Claim C6. \<^verbatim>\<open>load_decisions\<close> on a file that exists replaces the decision history by
  the loaded sequence, whatever the history held before (nothing is merged), and leaves
  the running stats (\<open>total_decisions\<close>, \<open>avg_adjustment\<close>, \<open>total_profit\<close>,
  \<open>default_rate\<close>) and the config as they were: the totals are not recomputed from the
  restored sequence.
\<close>

theorem load_decisions_frame:
  "fs filepath = Some js \<Longrightarrow>
     \<exists>ag'. load_decisions ag fs filepath = Inr ag'
        \<and> decision_history ag' = map of_json js
        \<and> stats ag' = stats ag
        \<and> total_decisions (stats ag') = total_decisions (stats ag)
        \<and> total_profit (stats ag') = total_profit (stats ag)
        \<and> config ag' = config ag"
  by (simp add: load_decisions_def)

theorem load_decisions_frame_witness:
  "[''h.json'' \<mapsto> [JObj [(''final_rate'', JReal (1 / 10))]]] ''h.json''
       = Some [JObj [(''final_rate'', JReal (1 / 10))]]
   \<and> (\<exists>ag'. load_decisions
          \<lparr>config = default_config, decision_history = [PInt 7],
           stats = \<lparr>total_decisions = 1, avg_adjustment = 0, total_profit = 5,
                    default_rate = 0\<rparr>\<rparr>
          [''h.json'' \<mapsto> [JObj [(''final_rate'', JReal (1 / 10))]]] ''h.json'' = Inr ag'
        \<and> decision_history ag' = [PDict [(''final_rate'', PFloat (1 / 10))]]
        \<and> total_decisions (stats ag') = 1
        \<and> total_profit (stats ag') = 5
        \<and> config ag' = default_config)"
  using load_decisions_frame
    [of "[''h.json'' \<mapsto> [JObj [(''final_rate'', JReal (1 / 10))]]]" "''h.json''"
        "[JObj [(''final_rate'', JReal (1 / 10))]]"
        "\<lparr>config = default_config, decision_history = [PInt 7],
          stats = \<lparr>total_decisions = 1, avg_adjustment = 0, total_profit = 5,
                   default_rate = 0\<rparr>\<rparr>"]
  by auto

section \<open>The worked scenario\<close>

lemma scenario_lookups:
  "lookup (scenario i) ''country'' = Inr (PStr ''USA'')"
  "lookup (scenario i) ''credit_score'' = Inr (PInt 720)"
  "lookup (scenario i) ''income'' = Inr (PInt 85000)"
  "lookup (scenario i) ''loan_amount'' = Inr (PInt 15000)"
  "get_default (scenario i) ''existing_debt'' (PInt 0) = PInt 12000"
  "get_default (scenario i) ''id'' (PStr ''unknown'')
     = (case i of None \<Rightarrow> PStr ''unknown'' | Some v \<Rightarrow> v)"
  by (simp_all add: scenario_def lookup_def get_default_def)

lemma scenario_norm: "normalize_score (PInt 720) (PStr ''USA'') = Inr (42 / 55)"
  by (simp add: normalize_score_def truediv_small)

lemma scenario_dti: "debt_to_income (scenario i) = Inr (12 / 85)"
  by (simp add: debt_to_income_def scenario_lookups py_max1_def truediv_small)

lemma scenario_risk: "calculate_risk_adjustment (scenario i) = Inr (- (719 / 85000))"
  by (simp add: calculate_risk_adjustment_def scenario_lookups scenario_norm scenario_dti
      py_max1_def truediv_small)

lemma scenario_market: "calculate_market_adjustment (scenario i) = Inr (- (1 / 100))"
  by (simp add: calculate_market_adjustment_def scenario_lookups py_ge_def)

lemma scenario_profit: "calculate_profit_adjustment (scenario i) = Inr (- (25 / 10000))"
  by (simp add: calculate_profit_adjustment_def scenario_lookups py_ge_def)

lemma scenario_default: "estimate_default_probability (scenario i) = Inr (1369 / 18700)"
  by (simp add: estimate_default_probability_def scenario_lookups scenario_norm scenario_dti)

lemma scenario_base: "base_rate_for (PStr ''USA'') = Inr (12 / 100)"
  by (simp add: base_rate_for_def base_rates_def)

lemma scenario_profit_value:
  "calculate_expected_profit (PInt 15000) (189847 / 1700000) (1369 / 18700)
     = Inr (643450461 / 578000)"
  by (simp add: calculate_expected_profit_def py_mul_float_def int_to_float_small)

lemma scenario_reasoning:
  "generate_reasoning (- (719 / 85000)) (- (1 / 100)) (- (25 / 10000)) (scenario i) =
     Inr [''Standard risk assessment'', ''Competitive rate to win quality applicant'',
          ''Volume discount for larger loan amount'']"
  by (simp add: generate_reasoning_def scenario_lookups py_ge_def py_lt_def)

lemma scenario_rounds:
  "py_round (12 / 100) 4 = 12 / 100"
  "py_round (- (719 / 85000)) 4 = - (85 / 10000)"
  "py_round (- (1 / 100)) 4 = - (1 / 100)"
  "py_round (- (25 / 10000)) 4 = - (25 / 10000)"
  "py_round (- (14153 / 1700000)) 4 = - (83 / 10000)"
  "py_round (189847 / 1700000) 4 = 1117 / 10000"
  "py_round (1369 / 18700) 4 = 732 / 10000"
  "py_round (643450461 / 578000) 2 = 111324 / 100"
  using py_round_near [of 1200 "12 / 100" 4] py_round_near [of "- 85" "- (719 / 85000)" 4]
    py_round_near [of "- 100" "- (1 / 100)" 4] py_round_near [of "- 25" "- (25 / 10000)" 4]
    py_round_near [of "- 83" "- (14153 / 1700000)" 4]
    py_round_near [of 1117 "189847 / 1700000" 4]
    py_round_near [of 732 "1369 / 18700" 4]
    py_round_near [of 111324 "643450461 / 578000" 2]
  by simp_all

lemma scenario_log:
  "log_decision (init_agent None) (scenario_decision i now) = Inr (scenario_agent i now)"
  by (simp add: log_decision_def init_agent_def scenario_decision_def scenario_agent_def
      np_mean_def)

lemma scenario_run:
  "calculate_rate (init_agent None) (scenario i) now
     = Inr (scenario_decision i now, scenario_agent i now)"
proof -
  have cfg: "config (init_agent None) = default_config"
    by (simp add: init_agent_def)
  have tot: "combine_adjustments default_config (- (719 / 85000)) (- (1 / 100))
               (- (25 / 10000)) = Inr (- (14153 / 1700000))"
    by (simp add: combine_adjustments_def weighted_def config_item_def default_config_def
        py_mul_float_def)
  have fin: "max min_rate (min max_rate (12 / 100 + - (14153 / 1700000))) = 189847 / 1700000"
    by (simp add: min_rate_def max_rate_def)
  have dec: "PDict
      [(''timestamp'', PStr now),
       (''applicant_id'', (case i of None \<Rightarrow> PStr ''unknown'' | Some v \<Rightarrow> v)),
       (''country'', PStr ''USA''),
       (''credit_score'', PInt 720),
       (''loan_amount'', PInt 15000),
       (''base_rate'', PFloat (py_round (12 / 100) 4)),
       (''risk_adjustment'', PFloat (py_round (- (719 / 85000)) 4)),
       (''market_adjustment'', PFloat (py_round (- (1 / 100)) 4)),
       (''profit_adjustment'', PFloat (py_round (- (25 / 10000)) 4)),
       (''total_adjustment'', PFloat (py_round (- (14153 / 1700000)) 4)),
       (''final_rate'', PFloat (py_round (189847 / 1700000) 4)),
       (''default_probability'', PFloat (py_round (1369 / 18700) 4)),
       (''expected_profit'', PFloat (py_round (643450461 / 578000) 2)),
       (''reasoning'',
        PList (map PStr [''Standard risk assessment'',
                         ''Competitive rate to win quality applicant'',
                         ''Volume discount for larger loan amount'']))]
     = scenario_decision i now"
    unfolding scenario_rounds by (simp add: scenario_decision_def)
  show ?thesis
    unfolding calculate_rate_def scenario_lookups bindE_Inr scenario_base scenario_risk
      scenario_market scenario_profit scenario_default cfg tot Let_def fin
      scenario_profit_value scenario_reasoning dec scenario_log
    by (rule refl)
qed

text \<open>
  Claim C8. For the USA applicant with credit score 720, income 85000, loan amount 15000
  and existing debt 12000, a fresh agent with the default config returns a decision with
  base rate 0.12, market adjustment -0.01 (700 \<le> 720 < 750), profit adjustment -0.0025
  (the threshold 15000 is inclusive), risk adjustment -0.0085, a total adjustment within
  0.00005 of -0.00835 (it is stored as -0.0083) and final rate 0.1117, which lies within
  the rate bounds.
\<close>

theorem scenario_a_rate:
  "\<exists>d ag'. calculate_rate (init_agent None) scenario_a now = Inr (d, ag')
     \<and> get_item d ''base_rate'' = Inr (PFloat (12 / 100))
     \<and> get_item d ''market_adjustment'' = Inr (PFloat (- (1 / 100)))
     \<and> get_item d ''profit_adjustment'' = Inr (PFloat (- (25 / 10000)))
     \<and> get_item d ''risk_adjustment'' = Inr (PFloat (- (85 / 10000)))
     \<and> (\<exists>t. get_item d ''total_adjustment'' = Inr (PFloat t) \<and> \<bar>t - (- (835 / 100000))\<bar> \<le> 5 / 100000)
     \<and> get_item d ''final_rate'' = Inr (PFloat (1117 / 10000))
     \<and> min_rate \<le> 1117 / 10000 \<and> 1117 / 10000 \<le> max_rate"
  by (simp add: scenario_a_def scenario_run scenario_decision_def min_rate_def max_rate_def)

section \<open>The decision of a successful pricing\<close>

lemma calculate_rate_InrD:
  assumes "calculate_rate ag ap now = Inr (d, ag')"
  obtains country base_rate risk market profit total default_prob loan_amount
    expected_profit credit_score reasoning
  where "lookup ap ''country'' = Inr country"
    and "base_rate_for country = Inr base_rate"
    and "calculate_risk_adjustment ap = Inr risk"
    and "calculate_market_adjustment ap = Inr market"
    and "calculate_profit_adjustment ap = Inr profit"
    and "combine_adjustments (config ag) risk market profit = Inr total"
    and "estimate_default_probability ap = Inr default_prob"
    and "lookup ap ''loan_amount'' = Inr loan_amount"
    and "lookup ap ''credit_score'' = Inr credit_score"
    and "d = PDict
             [(''timestamp'', PStr now),
              (''applicant_id'', get_default ap ''id'' (PStr ''unknown'')),
              (''country'', country),
              (''credit_score'', credit_score),
              (''loan_amount'', loan_amount),
              (''base_rate'', PFloat (py_round base_rate 4)),
              (''risk_adjustment'', PFloat (py_round risk 4)),
              (''market_adjustment'', PFloat (py_round market 4)),
              (''profit_adjustment'', PFloat (py_round profit 4)),
              (''total_adjustment'',
                 PFloat (py_round total 4)),
              (''final_rate'',
                 PFloat (py_round (max min_rate (min max_rate (base_rate + total))) 4)),
              (''default_probability'', PFloat (py_round default_prob 4)),
              (''expected_profit'', PFloat (py_round expected_profit 2)),
              (''reasoning'', PList (map PStr reasoning))]"
    and "log_decision ag d = Inr ag'"
  using assms unfolding calculate_rate_def Let_def bindE_eq_Inr
  by (elim exE conjE) (simp, blast)

text \<open>
  Claim C1. Whenever pricing an applicant succeeds, the \<open>final_rate\<close> stored in the
  returned decision lies between \<open>min_rate = 0.08\<close> and \<open>max_rate = 0.36\<close>: the base
  rate plus the weighted adjustments is clamped to these bounds, and rounding to four
  places keeps it there.
\<close>

theorem final_rate_bounds:
  "calculate_rate ag ap now = Inr (d, ag') \<Longrightarrow>
     \<exists>r. get_item d ''final_rate'' = Inr (PFloat r) \<and> min_rate \<le> r \<and> r \<le> max_rate
        \<and> min_rate = 8 / 100 \<and> max_rate = 36 / 100"
proof -
  assume run: "calculate_rate ag ap now = Inr (d, ag')"
  from run obtain x where d: "get_item d ''final_rate''
      = Inr (PFloat (py_round (max min_rate (min max_rate x)) 4))"
    by (rule calculate_rate_InrD) simp
  have "of_int 800 / 10 ^ 4 \<le> max min_rate (min max_rate x)"
    and "max min_rate (min max_rate x) \<le> of_int 3600 / 10 ^ 4"
    by (simp_all add: min_rate_def max_rate_def)
  then have "of_int 800 / 10 ^ 4 \<le> py_round (max min_rate (min max_rate x)) 4
      \<and> py_round (max min_rate (min max_rate x)) 4 \<le> of_int 3600 / 10 ^ 4"
    by (rule py_round_bounds)
  then show ?thesis using d by (simp add: min_rate_def max_rate_def)
qed

theorem final_rate_bounds_witness:
  "calculate_rate (init_agent None) (scenario None) ''2025-01-01T00:00:00''
     = Inr (scenario_decision None ''2025-01-01T00:00:00'',
            scenario_agent None ''2025-01-01T00:00:00'')
   \<and> (\<exists>r. get_item (scenario_decision None ''2025-01-01T00:00:00'') ''final_rate''
            = Inr (PFloat r) \<and> min_rate \<le> r \<and> r \<le> max_rate
        \<and> min_rate = 8 / 100 \<and> max_rate = 36 / 100)"
  using final_rate_bounds [OF scenario_run [of None "''2025-01-01T00:00:00''"]] scenario_run
  by simp

section \<open>The default probability\<close>

lemma int_to_float_val: "int_to_float i = Inr x \<Longrightarrow> x = of_int i"
  by (auto simp: int_to_float_def split: if_splits)

lemma to_float_val: "to_float n = Inr x \<Longrightarrow> x = num_val n"
  by (cases n) (auto dest: int_to_float_val)

lemma py_sub_val: "py_sub a b = Inr c \<Longrightarrow> num_val c = num_val a - num_val b"
  by (cases a; cases b) (auto simp: bindE_eq_Inr dest!: int_to_float_val)

lemma py_truediv_val: "py_truediv a b = Inr q \<Longrightarrow> q = num_val a / num_val b"
  by (cases a; cases b)
     (auto simp: py_truediv.simps bindE_eq_Inr split: if_splits dest!: int_to_float_val)

lemma py_max1_val: "num_val (py_max1 x) = max (num_val x) 1"
  by (simp add: py_max1_def max_def)

lemma normalize_score_val:
  "normalize_score v c = Inr n \<Longrightarrow>
     \<exists>cs. as_num v = Inr cs
        \<and> n = (num_val cs - 300) / (if c = PStr ''USA'' then 550 else 600)"
  by (auto simp: normalize_score_def bindE_eq_Inr split: if_splits
      dest!: py_truediv_val py_sub_val)

lemma debt_to_income_val:
  "debt_to_income ap = Inr dti \<Longrightarrow>
     \<exists>incv inc dn. ap ''income'' = Some incv \<and> as_num incv = Inr inc
        \<and> as_num (get_default ap ''existing_debt'' (PInt 0)) = Inr dn
        \<and> dti = num_val dn / max (num_val inc) 1"
  by (auto simp: debt_to_income_def bindE_eq_Inr lookup_def Let_def py_max1_val
      split: option.splits dest!: py_truediv_val)

lemma estimate_default_probability_val:
  "estimate_default_probability ap = Inr p \<Longrightarrow>
     \<exists>v c n dti. ap ''credit_score'' = Some v \<and> ap ''country'' = Some c
        \<and> normalize_score v c = Inr n \<and> debt_to_income ap = Inr dti
        \<and> p = min (25 / 100 * (1 - n) + dti * (1 / 10)) (99 / 100)"
  by (auto simp: estimate_default_probability_def bindE_eq_Inr lookup_def Let_def
      split: option.splits)

lemma estimate_default_probability_formula:
  "estimate_default_probability ap = Inr p \<Longrightarrow>
     \<exists>c cs inc debt.
        ap ''country'' = Some c
        \<and> num_field ap ''credit_score'' = Some cs
        \<and> num_field ap ''income'' = Some inc
        \<and> as_num (get_default ap ''existing_debt'' (PInt 0)) = Inr debt
        \<and> p = min (25 / 100 * (1 - (cs - 300) / (if c = PStr ''USA'' then 550 else 600))
                     + num_val debt / max inc 1 * (1 / 10)) (99 / 100)"
proof -
  assume "estimate_default_probability ap = Inr p"
  then obtain v c n dti where v: "ap ''credit_score'' = Some v" and c: "ap ''country'' = Some c"
    and n: "normalize_score v c = Inr n" and dti: "debt_to_income ap = Inr dti"
    and p: "p = min (25 / 100 * (1 - n) + dti * (1 / 10)) (99 / 100)"
    by (blast dest: estimate_default_probability_val)
  from n obtain cs where cs: "as_num v = Inr cs"
    and nv: "n = (num_val cs - 300) / (if c = PStr ''USA'' then 550 else 600)"
    by (blast dest: normalize_score_val)
  from dti obtain incv inc dn where inc: "ap ''income'' = Some incv" "as_num incv = Inr inc"
    and dn: "as_num (get_default ap ''existing_debt'' (PInt 0)) = Inr dn"
    and dv: "dti = num_val dn / max (num_val inc) 1"
    by (blast dest: debt_to_income_val)
  have "num_field ap ''credit_score'' = Some (num_val cs)"
    "num_field ap ''income'' = Some (num_val inc)"
    using v cs inc by (simp_all add: num_field_def)
  then show ?thesis using c dn p nv dv by blast
qed

text \<open>
  Outside the valid range nothing holds the estimate above zero: a USA applicant with a
  score of 900 and no debt gets a negative one.
\<close>

lemma default_probability_no_floor:
  "estimate_default_probability high_score = Inr (- (1 / 44))"
  by (simp add: estimate_default_probability_def high_score_def lookup_def normalize_score_def
      debt_to_income_def get_default_def py_max1_def truediv_small)

text \<open>
  Claim C3. For a valid applicant (credit score within the range of the country's score,
  income and existing debt not negative) that is priced successfully, the
  \<open>default_probability\<close> of the decision lies between 0 and 0.99. The estimate is
  \<open>min raw 0.99\<close> with \<open>raw = 0.25 * (1 - normalized) + 0.1 * dti\<close>: the upper bound
  comes from that one clamp, the lower bound from the raw value itself, which is not
  negative for a valid applicant. Nothing clamps the estimate from below: for the
  applicant with a FICO score of 900, outside the valid range, it is negative.
\<close>

theorem default_probability_bounds:
  "calculate_rate ag ap now = Inr (d, ag') \<Longrightarrow> valid_applicant ap \<Longrightarrow>
     (\<exists>c cs inc debt p.
        ap ''country'' = Some c
        \<and> num_field ap ''credit_score'' = Some cs
        \<and> num_field ap ''income'' = Some inc
        \<and> as_num (get_default ap ''existing_debt'' (PInt 0)) = Inr debt
        \<and> estimate_default_probability ap
            = Inr (min (25 / 100 * (1 - (cs - 300) / (if c = PStr ''USA'' then 550 else 600))
                        + num_val debt / max inc 1 * (1 / 10)) (99 / 100))
        \<and> 0 \<le> 25 / 100 * (1 - (cs - 300) / (if c = PStr ''USA'' then 550 else 600))
                 + num_val debt / max inc 1 * (1 / 10)
        \<and> get_item d ''default_probability'' = Inr (PFloat p)
        \<and> p = py_round (min (25 / 100 * (1 - (cs - 300) / (if c = PStr ''USA'' then 550 else 600))
                        + num_val debt / max inc 1 * (1 / 10)) (99 / 100)) 4
        \<and> 0 \<le> p \<and> p \<le> 99 / 100)
     \<and> estimate_default_probability high_score = Inr (- (1 / 44))"
proof -
  assume run: "calculate_rate ag ap now = Inr (d, ag')" and valid: "valid_applicant ap"
  from run obtain x where est: "estimate_default_probability ap = Inr x"
    and d: "get_item d ''default_probability'' = Inr (PFloat (py_round x 4))"
    by (rule calculate_rate_InrD) simp
  from estimate_default_probability_formula [OF est] obtain c cs inc debt where
    c: "ap ''country'' = Some c" and cs: "num_field ap ''credit_score'' = Some cs"
    and inc: "num_field ap ''income'' = Some inc"
    and debt: "as_num (get_default ap ''existing_debt'' (PInt 0)) = Inr debt"
    and x: "x = min (25 / 100 * (1 - (cs - 300) / (if c = PStr ''USA'' then 550 else 600))
                     + num_val debt / max inc 1 * (1 / 10)) (99 / 100)"
    by blast
  define raw where "raw = 25 / 100 * (1 - (cs - 300) / (if c = PStr ''USA'' then 550 else 600))
                     + num_val debt / max inc 1 * (1 / 10)"
  from valid c cs have hi: "cs \<le> (if c = PStr ''USA'' then 850 else 900)"
    by (simp add: valid_applicant_def)
  then have n1: "(cs - 300) / (if c = PStr ''USA'' then 550 else 600) \<le> 1"
    by (simp split: if_splits)
  have "0 \<le> num_val debt"
    using valid debt by (auto simp: valid_applicant_def num_field_def get_default_def
        split: option.splits sum.splits)
  then have d0: "0 \<le> num_val debt / max inc 1" by simp
  have raw0: "0 \<le> raw" unfolding raw_def using n1 d0 by simp
  have xr: "x = min raw (99 / 100)" using x by (simp add: raw_def)
  have "of_int 0 / 10 ^ 4 \<le> x" and "x \<le> of_int 9900 / 10 ^ 4"
    using xr raw0 by (simp_all add: min_def)
  then have "of_int 0 / 10 ^ 4 \<le> py_round x 4 \<and> py_round x 4 \<le> of_int 9900 / 10 ^ 4"
    by (rule py_round_bounds)
  then have b: "0 \<le> py_round x 4" "py_round x 4 \<le> 99 / 100" by simp_all
  have "\<exists>c cs inc debt p.
        ap ''country'' = Some c
        \<and> num_field ap ''credit_score'' = Some cs
        \<and> num_field ap ''income'' = Some inc
        \<and> as_num (get_default ap ''existing_debt'' (PInt 0)) = Inr debt
        \<and> estimate_default_probability ap
            = Inr (min (25 / 100 * (1 - (cs - 300) / (if c = PStr ''USA'' then 550 else 600))
                        + num_val debt / max inc 1 * (1 / 10)) (99 / 100))
        \<and> 0 \<le> 25 / 100 * (1 - (cs - 300) / (if c = PStr ''USA'' then 550 else 600))
                 + num_val debt / max inc 1 * (1 / 10)
        \<and> get_item d ''default_probability'' = Inr (PFloat p)
        \<and> p = py_round (min (25 / 100 * (1 - (cs - 300) / (if c = PStr ''USA'' then 550 else 600))
                        + num_val debt / max inc 1 * (1 / 10)) (99 / 100)) 4
        \<and> 0 \<le> p \<and> p \<le> 99 / 100"
    using c cs inc debt est [unfolded x] raw0 [unfolded raw_def] d [unfolded x] b [unfolded x]
    by blast
  then show ?thesis using default_probability_no_floor by blast
qed

lemma scenario_valid: "valid_applicant (scenario i)"
  by (simp add: valid_applicant_def num_field_def scenario_def)

theorem default_probability_bounds_witness:
  "calculate_rate (init_agent None) (scenario None) ''2025-01-01T00:00:00''
     = Inr (scenario_decision None ''2025-01-01T00:00:00'',
            scenario_agent None ''2025-01-01T00:00:00'')
   \<and> valid_applicant (scenario None)
   \<and> (\<exists>c cs inc debt p.
        scenario None ''country'' = Some c
        \<and> num_field (scenario None) ''credit_score'' = Some cs
        \<and> num_field (scenario None) ''income'' = Some inc
        \<and> as_num (get_default (scenario None) ''existing_debt'' (PInt 0)) = Inr debt
        \<and> estimate_default_probability (scenario None)
            = Inr (min (25 / 100 * (1 - (cs - 300) / (if c = PStr ''USA'' then 550 else 600))
                        + num_val debt / max inc 1 * (1 / 10)) (99 / 100))
        \<and> get_item (scenario_decision None ''2025-01-01T00:00:00'') ''default_probability''
            = Inr (PFloat p)
        \<and> 0 \<le> p \<and> p \<le> 99 / 100)
   \<and> estimate_default_probability high_score = Inr (- (1 / 44))"
  using default_probability_bounds [OF scenario_run [of None "''2025-01-01T00:00:00''"]
      scenario_valid [of None]] scenario_run [of None "''2025-01-01T00:00:00''"]
    scenario_valid [of None]
  by blast

section \<open>Where pricing is defined\<close>

lemma dbl_limit_gt_1: "1 < dbl_limit"
  using dbl_limit_large by (rule less_le_trans [rotated]) simp

lemma dbl_limit_ge_1: "1 \<le> dbl_limit"
  using dbl_limit_gt_1 by simp

lemma in_double_range_num:
  "in_double_range v \<Longrightarrow> \<exists>n. as_num v = Inr n \<and> to_float n = Inr (num_val n)"
  using dbl_limit_gt_1 by (cases v) (auto simp: in_double_range_def int_to_float_def)

lemma truediv_int_ok:
  "0 < k \<Longrightarrow> \<bar>of_int a :: rat\<bar> < of_int k * dbl_limit \<Longrightarrow>
     py_truediv (NInt a) (NInt k) = Inr (of_int a / of_int k)"
proof -
  assume k: "0 < k" and a: "\<bar>of_int a :: rat\<bar> < of_int k * dbl_limit"
  have "\<bar>of_int a / of_int k :: rat\<bar> = \<bar>of_int a\<bar> / of_int k" using k by simp
  also have "\<dots> < dbl_limit" using k a by (simp add: pos_divide_less_eq mult.commute)
  finally show ?thesis using k by (simp add: py_truediv.simps)
qed

lemma truediv_ok:
  assumes a: "to_float a = Inr (num_val a)" and b: "to_float b = Inr (num_val b)"
    and b1: "1 \<le> num_val b"
  shows "py_truediv a b = Inr (num_val a / num_val b)"
proof (cases a)
  case (NInt i)
  note ai = this
  show ?thesis
  proof (cases b)
    case (NInt k)
    from b1 NInt have k: "0 < k" by simp
    from a ai have "\<bar>of_int i :: rat\<bar> < dbl_limit"
      by (simp add: int_to_float_def split: if_splits)
    also have "dbl_limit \<le> of_int k * dbl_limit"
      using k dbl_limit_ge_1 by (simp add: mult_le_cancel_right1)
    finally show ?thesis using ai NInt k by (simp add: truediv_int_ok)
  next
    case (NFloat r)
    then show ?thesis using a b b1 ai by (simp add: py_truediv.simps)
  qed
next
  case (NFloat r)
  then show ?thesis using a b b1 by (cases b) (auto simp: py_truediv.simps)
qed

lemma normalize_score_ok:
  assumes "in_double_range v"
  shows "\<exists>cs. as_num v = Inr cs
           \<and> normalize_score v c
               = Inr ((num_val cs - 300) / (if c = PStr ''USA'' then 550 else 600))"
proof -
  from assms obtain cs where cs: "as_num v = Inr cs" and f: "to_float cs = Inr (num_val cs)"
    by (blast dest: in_double_range_num)
  have f300: "int_to_float 300 = Inr 300"
    using int_to_float_small [of 300] by simp
  show ?thesis
  proof (cases cs)
    case (NInt i)
    from f NInt have "\<bar>of_int i :: rat\<bar> < dbl_limit"
      by (simp add: int_to_float_def split: if_splits)
    then have "\<bar>of_int (i - 300) :: rat\<bar> < dbl_limit + 300" by simp
    also have "\<dots> \<le> 550 * dbl_limit" using dbl_limit_ge_1 by simp
    finally have 1: "\<bar>of_int (i - 300) :: rat\<bar> < of_int 550 * dbl_limit"
      and 2: "\<bar>of_int (i - 300) :: rat\<bar> < of_int 600 * dbl_limit"
      using dbl_limit_ge_1 by simp_all
    show ?thesis using cs NInt truediv_int_ok [OF _ 1] truediv_int_ok [OF _ 2]
      by (simp add: normalize_score_def)
  next
    case (NFloat r)
    then show ?thesis using cs f300 int_to_float_small [of 550] int_to_float_small [of 600]
      by (simp add: normalize_score_def py_truediv.simps)
  qed
qed

lemma py_max1_float: "to_float n = Inr (num_val n) \<Longrightarrow> to_float (py_max1 n) = Inr (num_val (py_max1 n))"
  using int_to_float_small [of 1] by (simp add: py_max1_def)

lemma py_max1_ge: "1 \<le> num_val (py_max1 n)"
  by (simp add: py_max1_def)

lemma ratio_ok:
  assumes "in_double_range x" and "in_double_range y"
  shows "\<exists>xn yn. as_num x = Inr xn \<and> as_num y = Inr yn
           \<and> py_truediv xn (py_max1 yn) = Inr (num_val xn / max (num_val yn) 1)"
proof -
  from assms obtain xn yn where x: "as_num x = Inr xn" "to_float xn = Inr (num_val xn)"
    and y: "as_num y = Inr yn" "to_float yn = Inr (num_val yn)"
    by (blast dest: in_double_range_num)
  have "py_truediv xn (py_max1 yn) = Inr (num_val xn / num_val (py_max1 yn))"
    using x(2) py_max1_float [OF y(2)] py_max1_ge by (rule truediv_ok)
  then show ?thesis using x y by (simp add: py_max1_val)
qed

lemma debt_in_range: "debt_ok ap \<Longrightarrow> in_double_range (get_default ap ''existing_debt'' (PInt 0))"
  using dbl_limit_ge_1
  by (auto simp: debt_ok_def get_default_def in_double_range_def split: option.splits)

lemma debt_to_income_ok:
  assumes "present_in_range ap ''income''" and "debt_ok ap"
  shows "\<exists>dti. debt_to_income ap = Inr dti"
proof -
  from assms(1) obtain incv where i: "ap ''income'' = Some incv" "in_double_range incv"
    by (auto simp: present_in_range_def split: option.splits)
  from ratio_ok [OF debt_in_range [OF assms(2)] i(2)] i(1) show ?thesis
    by (auto simp: debt_to_income_def lookup_def Let_def)
qed

lemma present_in_rangeD:
  "present_in_range ap k \<Longrightarrow> \<exists>v. ap k = Some v \<and> lookup ap k = Inr v \<and> in_double_range v"
  by (auto simp: present_in_range_def lookup_def split: option.splits)

lemma country_okD:
  "country_ok ap \<Longrightarrow> \<exists>c. ap ''country'' = Some c \<and> lookup ap ''country'' = Inr c \<and> hashable c"
  by (auto simp: country_ok_def lookup_def split: option.splits)

lemma base_rate_for_ok: "hashable c \<Longrightarrow> \<exists>b. base_rate_for c = Inr b"
  by (simp add: base_rate_for_def)

lemma calculate_risk_adjustment_ok:
  assumes "country_ok ap" and "present_in_range ap ''credit_score''"
    and "present_in_range ap ''income''" and "present_in_range ap ''loan_amount''"
    and "debt_ok ap"
  shows "\<exists>r. calculate_risk_adjustment ap = Inr r"
proof -
  from assms(1) obtain c where c: "lookup ap ''country'' = Inr c"
    by (blast dest: country_okD)
  from assms(2) obtain v where v: "lookup ap ''credit_score'' = Inr v" "in_double_range v"
    by (blast dest: present_in_rangeD)
  from assms(3) obtain iv where iv: "lookup ap ''income'' = Inr iv" "in_double_range iv"
    by (blast dest: present_in_rangeD)
  from assms(4) obtain lv where lv: "lookup ap ''loan_amount'' = Inr lv" "in_double_range lv"
    by (blast dest: present_in_rangeD)
  from normalize_score_ok [OF v(2), of c] obtain n where n: "normalize_score v c = Inr n"
    by blast
  from debt_to_income_ok [OF assms(3) assms(5)] obtain dti where dti: "debt_to_income ap = Inr dti"
    by blast
  from ratio_ok [OF lv(2) iv(2)] obtain ln yn q where r: "as_num lv = Inr ln" "as_num iv = Inr yn"
    "py_truediv ln (py_max1 yn) = Inr q"
    by blast
  show ?thesis
    by (simp add: calculate_risk_adjustment_def c v iv lv n dti r Let_def)
qed

lemma calculate_market_adjustment_ok:
  assumes "country_ok ap" and "present_in_range ap ''credit_score''"
  shows "\<exists>m. calculate_market_adjustment ap = Inr m"
proof -
  from assms(1) obtain c where c: "lookup ap ''country'' = Inr c"
    by (blast dest: country_okD)
  from assms(2) obtain v where v: "lookup ap ''credit_score'' = Inr v" "in_double_range v"
    by (blast dest: present_in_rangeD)
  from v(2) obtain n where n: "as_num v = Inr n" by (blast dest: in_double_range_num)
  show ?thesis by (simp add: calculate_market_adjustment_def c v n)
qed

lemma calculate_profit_adjustment_ok:
  assumes "present_in_range ap ''loan_amount''"
  shows "\<exists>p. calculate_profit_adjustment ap = Inr p"
proof -
  from assms obtain lv where lv: "lookup ap ''loan_amount'' = Inr lv" "in_double_range lv"
    by (blast dest: present_in_rangeD)
  from lv(2) obtain n where n: "as_num lv = Inr n" by (blast dest: in_double_range_num)
  show ?thesis by (simp add: calculate_profit_adjustment_def lv n)
qed

lemma estimate_default_probability_ok:
  assumes "country_ok ap" and "present_in_range ap ''credit_score''"
    and "present_in_range ap ''income''" and "debt_ok ap"
  shows "\<exists>p. estimate_default_probability ap = Inr p"
proof -
  from assms(1) obtain c where c: "lookup ap ''country'' = Inr c"
    by (blast dest: country_okD)
  from assms(2) obtain v where v: "lookup ap ''credit_score'' = Inr v" "in_double_range v"
    by (blast dest: present_in_rangeD)
  from normalize_score_ok [OF v(2), of c] obtain n where n: "normalize_score v c = Inr n"
    by blast
  from debt_to_income_ok [OF assms(3) assms(4)] obtain dti where dti: "debt_to_income ap = Inr dti"
    by blast
  show ?thesis by (simp add: estimate_default_probability_def c v n dti Let_def)
qed

lemma calculate_expected_profit_ok:
  "in_double_range lv \<Longrightarrow> \<exists>e. calculate_expected_profit lv rate dp = Inr e"
  by (auto simp: calculate_expected_profit_def py_mul_float_def dest!: in_double_range_num)

lemma generate_reasoning_ok:
  assumes "country_ok ap" and "present_in_range ap ''credit_score''"
  shows "\<exists>rs. generate_reasoning r m p ap = Inr rs"
proof -
  from assms(1) obtain c where c: "lookup ap ''country'' = Inr c"
    by (blast dest: country_okD)
  from assms(2) obtain v where v: "lookup ap ''credit_score'' = Inr v" "in_double_range v"
    by (blast dest: present_in_rangeD)
  from v(2) obtain n where n: "as_num v = Inr n" by (blast dest: in_double_range_num)
  show ?thesis by (simp add: generate_reasoning_def c v n Let_def)
qed

lemma collect_append:
  "collect (xs @ [d]) k = bindE (collect xs k) (\<lambda>vs. bindE (get_item d k) (\<lambda>v. Inr (vs @ [v])))"
  by (induction xs) (auto simp: bindE_def split: sum.splits)

lemma collect_ok:
  "list_all entry_ok h \<Longrightarrow>
     \<exists>vs. collect h ''total_adjustment'' = Inr vs \<and> list_all in_double_range vs"
  by (induction h) (auto simp: entry_ok_def split: sum.splits)

lemma floats_of_ok:
  "list_all in_double_range vs \<Longrightarrow> \<exists>xs. floats_of vs = Inr xs \<and> length xs = length vs"
  by (induction vs) (auto dest!: in_double_range_num)

lemma np_mean_ok:
  "list_all in_double_range vs \<Longrightarrow> vs \<noteq> [] \<Longrightarrow> \<exists>m. np_mean vs = Inr m"
  by (auto simp: np_mean_def dest!: floats_of_ok)

lemma log_decision_ok:
  assumes h: "history_ok ag"
    and t: "get_item d ''total_adjustment'' = Inr (PFloat t)"
    and e: "get_item d ''expected_profit'' = Inr (PFloat e)"
  shows "\<exists>ag'. log_decision ag d = Inr ag' \<and> history_ok ag'"
proof -
  from h obtain vs where vs: "collect (decision_history ag) ''total_adjustment'' = Inr vs"
    "list_all in_double_range vs"
    unfolding history_ok_def by (blast dest: collect_ok)
  have c: "collect (decision_history ag @ [d]) ''total_adjustment'' = Inr (vs @ [PFloat t])"
    by (simp add: collect_append vs t)
  have "list_all in_double_range (vs @ [PFloat t])"
    using vs(2) by (simp add: in_double_range_def)
  then obtain m where m: "np_mean (vs @ [PFloat t]) = Inr m"
    by (blast dest: np_mean_ok)
  have ok: "entry_ok d" using t by (simp add: entry_ok_def in_double_range_def)
  show ?thesis using h ok
    by (simp add: log_decision_def Let_def c m e history_ok_def)
qed

lemma weighted_ok: "weight_ok cfg k \<Longrightarrow> \<exists>a. weighted x cfg k = Inr a"
  by (auto simp: weight_ok_def weighted_def config_item_def py_mul_float_def
      split: option.splits dest!: in_double_range_num)

lemma combine_adjustments_ok:
  assumes "config_ok ag"
  shows "\<exists>t. combine_adjustments (config ag) r m p = Inr t"
proof -
  from assms obtain a b c where "weighted r (config ag) ''risk_weight'' = Inr a"
    "weighted m (config ag) ''market_weight'' = Inr b"
    "weighted p (config ag) ''profit_weight'' = Inr c"
    unfolding config_ok_def by (blast dest: weighted_ok)
  then show ?thesis by (simp add: combine_adjustments_def)
qed

lemma log_decision_config: "log_decision ag d = Inr ag' \<Longrightarrow> config ag' = config ag"
  by (auto simp: log_decision_def Let_def bindE_eq_Inr)

lemma calculate_rate_ok:
  assumes f: "fields_ok ap" and h: "history_ok ag" and g: "config_ok ag"
  shows "\<exists>d ag'. calculate_rate ag ap now = Inr (d, ag') \<and> history_ok ag' \<and> config_ok ag'"
proof -
  from f have c0: "country_ok ap" and s0: "present_in_range ap ''credit_score''"
    and i0: "present_in_range ap ''income''" and l0: "present_in_range ap ''loan_amount''"
    and d0: "debt_ok ap"
    by (simp_all add: fields_ok_def)
  from c0 obtain c where c: "lookup ap ''country'' = Inr c" "hashable c"
    by (blast dest: country_okD)
  from c(2) obtain b where b: "base_rate_for c = Inr b" by (blast dest: base_rate_for_ok)
  from s0 obtain v where v: "lookup ap ''credit_score'' = Inr v"
    by (blast dest: present_in_rangeD)
  from l0 obtain lv where lv: "lookup ap ''loan_amount'' = Inr lv" "in_double_range lv"
    by (blast dest: present_in_rangeD)
  obtain r where r: "calculate_risk_adjustment ap = Inr r"
    using calculate_risk_adjustment_ok [OF c0 s0 i0 l0 d0] by blast
  obtain m where m: "calculate_market_adjustment ap = Inr m"
    using calculate_market_adjustment_ok [OF c0 s0] by blast
  obtain p where p: "calculate_profit_adjustment ap = Inr p"
    using calculate_profit_adjustment_ok [OF l0] by blast
  obtain t where t: "combine_adjustments (config ag) r m p = Inr t"
    using combine_adjustments_ok [OF g] by blast
  obtain dp where dp: "estimate_default_probability ap = Inr dp"
    using estimate_default_probability_ok [OF c0 s0 i0 d0] by blast
  define fr where "fr = max min_rate (min max_rate (b + t))"
  obtain e where e: "calculate_expected_profit lv fr dp = Inr e"
    using calculate_expected_profit_ok [OF lv(2)] by blast
  obtain rs where rs: "generate_reasoning r m p ap = Inr rs"
    using generate_reasoning_ok [OF c0 s0] by blast
  define d where "d = PDict
             [(''timestamp'', PStr now),
              (''applicant_id'', get_default ap ''id'' (PStr ''unknown'')),
              (''country'', c),
              (''credit_score'', v),
              (''loan_amount'', lv),
              (''base_rate'', PFloat (py_round b 4)),
              (''risk_adjustment'', PFloat (py_round r 4)),
              (''market_adjustment'', PFloat (py_round m 4)),
              (''profit_adjustment'', PFloat (py_round p 4)),
              (''total_adjustment'', PFloat (py_round t 4)),
              (''final_rate'', PFloat (py_round fr 4)),
              (''default_probability'', PFloat (py_round dp 4)),
              (''expected_profit'', PFloat (py_round e 2)),
              (''reasoning'', PList (map PStr rs))]"
  have "\<exists>t. get_item d ''total_adjustment'' = Inr (PFloat t)"
    and "\<exists>x. get_item d ''expected_profit'' = Inr (PFloat x)"
    by (simp_all add: d_def)
  then obtain ag' where ag': "log_decision ag d = Inr ag'" "history_ok ag'"
    using log_decision_ok [OF h] by blast
  have "calculate_rate ag ap now = Inr (d, ag')"
    unfolding calculate_rate_def c b r m p t dp lv v bindE_Inr Let_def
      e [unfolded fr_def] rs d_def [unfolded fr_def, symmetric] ag'
    by (rule refl)
  moreover have "config_ok ag'"
    using g log_decision_config [OF ag'(1)] by (simp add: config_ok_def)
  ultimately show ?thesis using ag'(2) by blast
qed

lemma config_ok_init: "config_ok (init_agent None)"
  using dbl_limit_gt_1
  by (simp add: config_ok_def weight_ok_def init_agent_def default_config_def
      in_double_range_def)

lemma history_ok_init: "history_ok (init_agent c)"
  by (simp add: history_ok_def init_agent_def)

section \<open>Arithmetic errors\<close>







section \<open>Unknown countries\<close>

lemma debt_to_income_country:
  "debt_to_income (ap(''country'' \<mapsto> x)) = debt_to_income ap"
  by (simp add: debt_to_income_def lookup_def get_default_def)

lemma py_round_15: "py_round (15 / 100) 4 = 15 / 100"
  using py_round_near [of 1500 "15 / 100" 4] by simp

lemma scenario_fields_ok: "fields_ok (scenario i)"
  using dbl_limit_large
  by (simp add: fields_ok_def scenario_def country_ok_def present_in_range_def
      debt_ok_def in_double_range_def dbl_limit_def)

lemma bindE_same_error:
  assumes "\<And>x. m = Inr x \<Longrightarrow> \<forall>e. f x = Inl e \<longleftrightarrow> g x = Inl e"
  shows "\<forall>e. bindE m f = Inl e \<longleftrightarrow> bindE m g = Inl e"
  using assms by (cases m) simp_all

lemma bindE_same_error2:
  assumes "\<forall>e. m = Inl e \<longleftrightarrow> n = Inl e"
    and "\<And>x y. m = Inr x \<Longrightarrow> n = Inr y \<Longrightarrow> \<forall>e. f x = Inl e \<longleftrightarrow> g y = Inl e"
  shows "\<forall>e. bindE m f = Inl e \<longleftrightarrow> bindE n g = Inl e"
proof (cases m)
  case (Inl a)
  with assms(1) have "n = Inl a" by blast
  with Inl show ?thesis by simp
next
  case mx: (Inr x)
  show ?thesis
  proof (cases n)
    case (Inl a)
    with assms(1) have "m = Inl a" by blast
    with mx show ?thesis by simp
  next
    case ny: (Inr y)
    from assms(2) [OF mx ny] show ?thesis by (simp add: mx ny)
  qed
qed

text \<open>Whether the expected profit is defined depends on the loan amount alone.\<close>

lemma expected_profit_same_error:
  "\<forall>e. calculate_expected_profit l r p = Inl e \<longleftrightarrow> calculate_expected_profit l r' p' = Inl e"
proof (cases "as_num l")
  case (Inl e)
  then show ?thesis by (simp add: calculate_expected_profit_def)
next
  case (Inr la)
  then show ?thesis
    by (cases "to_float la") (simp_all add: calculate_expected_profit_def py_mul_float_def)
qed

text \<open>
  Whether logging is defined depends on the history and on the decision's
  \<open>total_adjustment\<close>, once its \<open>expected_profit\<close> is a float.
\<close>

lemma log_decision_same_error:
  assumes "get_item d ''total_adjustment'' = get_item d' ''total_adjustment''"
    and "get_item d ''expected_profit'' = Inr (PFloat x)"
    and "get_item d' ''expected_profit'' = Inr (PFloat y)"
  shows "\<forall>e. log_decision ag d = Inl e \<longleftrightarrow> log_decision ag d' = Inl e"
  unfolding log_decision_def Let_def collect_append assms
  by (auto simp: bindE_def split: sum.splits)

text \<open>
  Claim C9. For an applicant whose country is a string other than \<open>USA\<close> and \<open>India\<close>,
  the base rate is the neutral 0.15, and every country-dependent computation --- the
  normalisation of the score in the risk adjustment and in the default probability, the
  thresholds of the market adjustment, the score bands of the reasoning --- gives what it
  gives for the same applicant labelled \<open>India\<close>: each takes its non-USA branch. So on
  every agent pricing raises an error for the applicant exactly when it raises that error
  for the applicant labelled \<open>India\<close>, a decision it returns has the base rate 0.15, and
  it does return one whenever the applicant's fields, the agent's history and the agent's
  config are such that pricing is defined.
\<close>

theorem unknown_country_fallback:
  assumes c: "ap ''country'' = Some (PStr c)" and usa: "c \<noteq> ''USA''" and india: "c \<noteq> ''India''"
  shows "base_rate_for (PStr c) = Inr (15 / 100)
     \<and> calculate_risk_adjustment ap
         = calculate_risk_adjustment (ap(''country'' \<mapsto> PStr ''India''))
     \<and> calculate_market_adjustment ap
         = calculate_market_adjustment (ap(''country'' \<mapsto> PStr ''India''))
     \<and> estimate_default_probability ap
         = estimate_default_probability (ap(''country'' \<mapsto> PStr ''India''))
     \<and> (\<forall>r m p. generate_reasoning r m p ap
                   = generate_reasoning r m p (ap(''country'' \<mapsto> PStr ''India'')))
     \<and> (\<forall>e. calculate_rate ag ap now = Inl e
              \<longleftrightarrow> calculate_rate ag (ap(''country'' \<mapsto> PStr ''India'')) now = Inl e)
     \<and> (\<forall>d ag'. calculate_rate ag ap now = Inr (d, ag')
              \<longrightarrow> get_item d ''base_rate'' = Inr (PFloat (15 / 100)))
     \<and> (fields_ok ap \<and> history_ok ag \<and> config_ok ag
          \<longrightarrow> (\<exists>d ag'. calculate_rate ag ap now = Inr (d, ag')
                  \<and> get_item d ''base_rate'' = Inr (PFloat (15 / 100))))"
proof -
  have b: "base_rate_for (PStr c) = Inr (15 / 100)"
    using usa india by (simp add: base_rate_for_def base_rates_def)
  have b': "base_rate_for (PStr ''India'') = Inr (18 / 100)"
    by (simp add: base_rate_for_def base_rates_def)
  have lc: "lookup ap ''country'' = Inr (PStr c)" using c by (simp add: lookup_def)
  have lc': "lookup (ap(''country'' \<mapsto> PStr ''India'')) ''country'' = Inr (PStr ''India'')"
    by (simp add: lookup_def)
  have ll: "lookup ap ''loan_amount'' = lookup (ap(''country'' \<mapsto> PStr ''India'')) ''loan_amount''"
    and ls: "lookup ap ''credit_score''
               = lookup (ap(''country'' \<mapsto> PStr ''India'')) ''credit_score''"
    and li: "get_default ap ''id'' (PStr ''unknown'')
               = get_default (ap(''country'' \<mapsto> PStr ''India'')) ''id'' (PStr ''unknown'')"
    by (simp_all add: lookup_def get_default_def)
  have risk: "calculate_risk_adjustment ap
      = calculate_risk_adjustment (ap(''country'' \<mapsto> PStr ''India''))"
    using c usa
    by (simp add: calculate_risk_adjustment_def debt_to_income_country lookup_def
        normalize_score_def)
  have market: "calculate_market_adjustment ap
      = calculate_market_adjustment (ap(''country'' \<mapsto> PStr ''India''))"
    using c usa by (simp add: calculate_market_adjustment_def lookup_def)
  have profit: "calculate_profit_adjustment ap
      = calculate_profit_adjustment (ap(''country'' \<mapsto> PStr ''India''))"
    by (simp add: calculate_profit_adjustment_def lookup_def)
  have est: "estimate_default_probability ap
      = estimate_default_probability (ap(''country'' \<mapsto> PStr ''India''))"
    using c usa
    by (simp add: estimate_default_probability_def debt_to_income_country lookup_def
        normalize_score_def)
  have reas: "generate_reasoning r m p ap
      = generate_reasoning r m p (ap(''country'' \<mapsto> PStr ''India''))" for r m p
    using c usa by (simp add: generate_reasoning_def lookup_def)
  have same: "\<forall>e. calculate_rate ag ap now = Inl e
              \<longleftrightarrow> calculate_rate ag (ap(''country'' \<mapsto> PStr ''India'')) now = Inl e"
    unfolding calculate_rate_def Let_def
    apply (simp only: lc lc' b b' bindE_Inr risk market profit est ll ls li reas)
    apply (rule bindE_same_error)+
    apply (rule bindE_same_error2 [OF expected_profit_same_error])
    apply (rule bindE_same_error)+
    apply (rule bindE_same_error2)
     apply (rule log_decision_same_error)
       apply simp
      apply simp
     apply simp
    apply simp
    done
  have item: "get_item d ''base_rate'' = Inr (PFloat (15 / 100))"
    if run: "calculate_rate ag ap now = Inr (d, ag')" for d ag'
  proof -
    from run obtain country base where l: "lookup ap ''country'' = Inr country"
      and br: "base_rate_for country = Inr base"
      and gi: "get_item d ''base_rate'' = Inr (PFloat (py_round base 4))"
      by (rule calculate_rate_InrD) simp
    from l c have "country = PStr c" by (simp add: lookup_def)
    with br b have "base = 15 / 100" by simp
    with gi show ?thesis by (simp only: py_round_15)
  qed
  have ok: "\<exists>d ag'. calculate_rate ag ap now = Inr (d, ag')
                  \<and> get_item d ''base_rate'' = Inr (PFloat (15 / 100))"
    if "fields_ok ap \<and> history_ok ag \<and> config_ok ag"
  proof -
    from that have f: "fields_ok ap" and h: "history_ok ag" and g: "config_ok ag" by simp_all
    from calculate_rate_ok [OF f h g, of now] obtain d ag' where
      run: "calculate_rate ag ap now = Inr (d, ag')" by blast
    then show ?thesis using item by blast
  qed
  show ?thesis using b risk market est reas same item ok by blast
qed

lemma canada_fields_ok: "fields_ok canada_applicant"
  using scenario_fields_ok [of None]
  by (simp add: fields_ok_def canada_applicant_def country_ok_def present_in_range_def
      debt_ok_def)

theorem unknown_country_fallback_witness:
  "canada_applicant ''country'' = Some (PStr ''Canada'') \<and> ''Canada'' \<noteq> ''USA''
   \<and> ''Canada'' \<noteq> ''India'' \<and> fields_ok canada_applicant \<and> history_ok (init_agent None)
   \<and> config_ok (init_agent None)
   \<and> (\<exists>d ag'. calculate_rate (init_agent None) canada_applicant ''2025-01-01T00:00:00''
                 = Inr (d, ag')
         \<and> get_item d ''base_rate'' = Inr (PFloat (15 / 100)))
   \<and> calculate_market_adjustment canada_applicant
             = calculate_market_adjustment (canada_applicant(''country'' \<mapsto> PStr ''India''))
   \<and> (\<forall>e. calculate_rate (init_agent None) canada_applicant ''2025-01-01T00:00:00'' = Inl e
            \<longleftrightarrow> calculate_rate (init_agent None)
                   (canada_applicant(''country'' \<mapsto> PStr ''India''))
                   ''2025-01-01T00:00:00'' = Inl e)"
proof -
  have c: "canada_applicant ''country'' = Some (PStr ''Canada'')"
    by (simp add: canada_applicant_def)
  have n: "''Canada'' \<noteq> ''USA''" "''Canada'' \<noteq> ''India''" by simp_all
  show ?thesis
    using unknown_country_fallback [where ap = canada_applicant and c = "''Canada''"
        and ag = "init_agent None" and now = "''2025-01-01T00:00:00''"]
      c canada_fields_ok history_ok_init [of None] config_ok_init
    by simp
qed

section \<open>Missing fields\<close>

lemma lookup_None: "ap k = None \<Longrightarrow> lookup ap k = Inl (KeyError k)"
  by (simp add: lookup_def)

lemma missing_country:
  "ap ''country'' = None \<Longrightarrow> calculate_rate ag ap now = Inl (KeyError ''country'')"
  by (simp add: calculate_rate_def lookup_None)

lemma missing_credit_score:
  assumes "ap ''credit_score'' = None" and "country_ok ap"
  shows "calculate_rate ag ap now = Inl (KeyError ''credit_score'')"
proof -
  from assms(2) obtain c where c: "lookup ap ''country'' = Inr c" "hashable c"
    by (blast dest: country_okD)
  from c(2) obtain b where b: "base_rate_for c = Inr b" by (blast dest: base_rate_for_ok)
  have "calculate_risk_adjustment ap = Inl (KeyError ''credit_score'')"
    by (simp add: calculate_risk_adjustment_def lookup_None assms(1))
  then show ?thesis by (simp add: calculate_rate_def c b)
qed

lemma missing_income:
  assumes "ap ''income'' = None" and "country_ok ap" and "present_in_range ap ''credit_score''"
  shows "calculate_rate ag ap now = Inl (KeyError ''income'')"
proof -
  from assms(2) obtain c where c: "lookup ap ''country'' = Inr c" "hashable c"
    by (blast dest: country_okD)
  from c(2) obtain b where b: "base_rate_for c = Inr b" by (blast dest: base_rate_for_ok)
  from assms(3) obtain v where v: "lookup ap ''credit_score'' = Inr v" "in_double_range v"
    by (blast dest: present_in_rangeD)
  from normalize_score_ok [OF v(2), of c] obtain n where n: "normalize_score v c = Inr n"
    by blast
  have "debt_to_income ap = Inl (KeyError ''income'')"
    by (simp add: debt_to_income_def lookup_None assms(1) Let_def)
  then have "calculate_risk_adjustment ap = Inl (KeyError ''income'')"
    by (simp add: calculate_risk_adjustment_def c v n)
  then show ?thesis by (simp add: calculate_rate_def c b)
qed

lemma missing_loan_amount:
  assumes "ap ''loan_amount'' = None" and "country_ok ap"
    and "present_in_range ap ''credit_score''" and "present_in_range ap ''income''"
    and "debt_ok ap"
  shows "calculate_rate ag ap now = Inl (KeyError ''loan_amount'')"
proof -
  from assms(2) obtain c where c: "lookup ap ''country'' = Inr c" "hashable c"
    by (blast dest: country_okD)
  from c(2) obtain b where b: "base_rate_for c = Inr b" by (blast dest: base_rate_for_ok)
  from assms(3) obtain v where v: "lookup ap ''credit_score'' = Inr v" "in_double_range v"
    by (blast dest: present_in_rangeD)
  from normalize_score_ok [OF v(2), of c] obtain n where n: "normalize_score v c = Inr n"
    by blast
  from debt_to_income_ok [OF assms(4) assms(5)] obtain dti where dti: "debt_to_income ap = Inr dti"
    by blast
  have "calculate_risk_adjustment ap = Inl (KeyError ''loan_amount'')"
    by (simp add: calculate_risk_adjustment_def c v n dti lookup_None assms(1))
  then show ?thesis by (simp add: calculate_rate_def c b)
qed

text \<open>
  Without an income the lookup \<^verbatim>\<open>applicant['income']\<close> raises Python's own
  \<^verbatim>\<open>KeyError\<close>; the source defines no \<^verbatim>\<open>MissingFieldError\<close>.
\<close>

theorem missing_income_counterexample:
  "no_income ''income'' = None
   \<and> calculate_rate (init_agent None) no_income ''2025-01-01T00:00:00''
       = Inl (KeyError ''income'')
   \<and> calculate_rate (init_agent None) no_income ''2025-01-01T00:00:00''
       \<noteq> Inl (MissingFieldError ''income'')"
proof -
  have 1: "no_income ''income'' = None" by (simp add: no_income_def)
  have 2: "country_ok no_income" "present_in_range no_income ''credit_score''"
    using scenario_fields_ok [of None]
    by (simp_all add: fields_ok_def no_income_def country_ok_def present_in_range_def)
  show ?thesis using missing_income [OF 1 2] 1 by simp
qed

text \<open>
  Claim C2, amended. When a required field (country, credit_score, income, loan_amount)
  is absent, and the fields that \<^verbatim>\<open>calculate_rate\<close> reads before it are such that the
  lookup is reached, \<^verbatim>\<open>calculate_rate\<close> fails with \<^verbatim>\<open>KeyError\<close> carrying the name of the
  first absent field: the generic lookup fault, not a \<^verbatim>\<open>MissingFieldError\<close>.
\<close>

theorem missing_field_key_error:
  "first_missing ap = Some f \<Longrightarrow> reads_ok ap f \<Longrightarrow>
     calculate_rate ag ap now = Inl (KeyError f)
     \<and> calculate_rate ag ap now \<noteq> Inl (MissingFieldError f)"
proof -
  assume m: "first_missing ap = Some f" and r: "reads_ok ap f"
  from m consider
      (country) "f = ''country''" "ap ''country'' = None"
    | (score) "f = ''credit_score''" "ap ''credit_score'' = None"
    | (income) "f = ''income''" "ap ''income'' = None"
    | (loan) "f = ''loan_amount''" "ap ''loan_amount'' = None"
    by (auto simp: first_missing_def required_fields_def split: if_splits)
  then have "calculate_rate ag ap now = Inl (KeyError f)"
  proof cases
    case country
    then show ?thesis by (simp add: missing_country)
  next
    case score
    then show ?thesis using r by (simp add: reads_ok_def missing_credit_score)
  next
    case income
    then show ?thesis using r by (simp add: reads_ok_def missing_income)
  next
    case loan
    then show ?thesis using r by (simp add: reads_ok_def missing_loan_amount)
  qed
  then show ?thesis by simp
qed

theorem missing_field_key_error_witness:
  "first_missing no_loan_amount = Some ''loan_amount'' \<and> reads_ok no_loan_amount ''loan_amount''
   \<and> calculate_rate (init_agent None) no_loan_amount ''2025-01-01T00:00:00''
       = Inl (KeyError ''loan_amount'')
   \<and> calculate_rate (init_agent None) no_loan_amount ''2025-01-01T00:00:00''
       \<noteq> Inl (MissingFieldError ''loan_amount'')"
proof -
  have 1: "first_missing no_loan_amount = Some ''loan_amount''"
    by (simp add: first_missing_def required_fields_def no_loan_amount_def scenario_def)
  have 2: "reads_ok no_loan_amount ''loan_amount''"
    using scenario_fields_ok [of None]
    by (simp add: reads_ok_def fields_ok_def no_loan_amount_def country_ok_def
        present_in_range_def debt_ok_def)
  show ?thesis
    using missing_field_key_error [OF 1 2, of "init_agent None" "''2025-01-01T00:00:00''"] 1 2
    by simp
qed

section \<open>Statistics of an empty history\<close>

lemma get_statistics_keys:
  "decision_history ag \<noteq> [] \<Longrightarrow> get_statistics ag = Inr r \<Longrightarrow> map fst r = summary_keys"
  by (auto simp: get_statistics_def Let_def bindE_eq_Inr summary_keys_def)

text \<open>
  Claim C10, amended. When the decision history is empty, \<^verbatim>\<open>get_statistics\<close> does not
  fail: it returns the running stats record as it stands, with the keys
  \<open>total_decisions\<close>, \<open>avg_adjustment\<close>, \<open>total_profit\<close> and \<open>default_rate\<close>. On a
  freshly constructed agent that record is the initial one, all zero. The key set differs
  from that of the non-empty case, which returns \<open>total_decisions\<close>,
  \<open>avg_rate_adjustment\<close>, \<open>avg_final_rate\<close>, \<open>total_expected_profit\<close> and
  \<open>avg_default_probability\<close>.
\<close>

theorem empty_history_statistics:
  "decision_history ag = [] \<Longrightarrow> decision_history other \<noteq> [] \<Longrightarrow> get_statistics other = Inr r \<Longrightarrow>
     get_statistics ag = Inr (stats_dict (stats ag))
     \<and> map fst (stats_dict (stats ag)) = stats_keys
     \<and> map fst r = summary_keys
     \<and> stats_keys \<noteq> summary_keys
     \<and> get_statistics (init_agent c)
         = Inr [(''total_decisions'', PInt 0), (''avg_adjustment'', PFloat 0),
                (''total_profit'', PFloat 0), (''default_rate'', PFloat 0)]"
  by (simp add: get_statistics_keys)
     (simp add: get_statistics_def stats_dict_def stats_keys_def summary_keys_def init_agent_def)

lemma scenario_statistics:
  "get_statistics (scenario_agent None now)
     = Inr [(''total_decisions'', PInt 1),
            (''avg_rate_adjustment'', PFloat (- (83 / 10000))),
            (''avg_final_rate'', PFloat (1117 / 10000)),
            (''total_expected_profit'', PFloat (111324 / 100)),
            (''avg_default_probability'', PFloat (732 / 10000))]"
proof -
  have r: "py_round (- (83 / 10000)) 4 = - (83 / 10000)"
    "py_round (1117 / 10000) 4 = 1117 / 10000"
    "py_round (111324 / 100) 2 = 111324 / 100"
    "py_round (732 / 10000) 4 = 732 / 10000"
    using py_round_near [of "- 83" "- (83 / 10000)" 4] py_round_near [of 1117 "1117 / 10000" 4]
      py_round_near [of 111324 "111324 / 100" 2] py_round_near [of 732 "732 / 10000" 4]
    by simp_all
  have m: "mean_of [scenario_decision None now] ''total_adjustment'' = Inr (- (83 / 10000))"
    "mean_of [scenario_decision None now] ''final_rate'' = Inr (1117 / 10000)"
    "mean_of [scenario_decision None now] ''default_probability'' = Inr (732 / 10000)"
    by (simp_all add: mean_of_def scenario_decision_def np_mean_def)
  have h: "decision_history (scenario_agent None now) = [scenario_decision None now]"
    by (simp add: scenario_agent_def)
  have l: "last_n 100 [scenario_decision None now] = [scenario_decision None now]"
    by (simp add: last_n_def)
  have td: "total_decisions (stats (scenario_agent None now)) = 1"
    and tp: "total_profit (stats (scenario_agent None now)) = 111324 / 100"
    by (simp_all add: scenario_agent_def)
  show ?thesis
    unfolding get_statistics_def h Let_def l m bindE_Inr td tp r
    by (simp only: list.distinct if_False)
qed

theorem empty_history_statistics_witness:
  "decision_history (init_agent None) = []
   \<and> decision_history (scenario_agent None ''2025-01-01T00:00:00'') \<noteq> []
   \<and> get_statistics (scenario_agent None ''2025-01-01T00:00:00'')
       = Inr [(''total_decisions'', PInt 1),
              (''avg_rate_adjustment'', PFloat (- (83 / 10000))),
              (''avg_final_rate'', PFloat (1117 / 10000)),
              (''total_expected_profit'', PFloat (111324 / 100)),
              (''avg_default_probability'', PFloat (732 / 10000))]
   \<and> get_statistics (init_agent None) = Inr (stats_dict (stats (init_agent None)))
   \<and> map fst (stats_dict (stats (init_agent None))) = stats_keys
   \<and> map fst [(''total_decisions'', PInt 1),
               (''avg_rate_adjustment'', PFloat (- (83 / 10000))),
               (''avg_final_rate'', PFloat (1117 / 10000)),
               (''total_expected_profit'', PFloat (111324 / 100)),
               (''avg_default_probability'', PFloat (732 / 10000))] = summary_keys
   \<and> stats_keys \<noteq> summary_keys"
  using empty_history_statistics
      [where ag = "init_agent None" and other = "scenario_agent None ''2025-01-01T00:00:00''",
       OF _ _ scenario_statistics]
    scenario_statistics [of "''2025-01-01T00:00:00''"]
  by (simp add: init_agent_def scenario_agent_def)

text \<open>
  An empty history does not mean zero stats: after one decision has been priced,
  loading a file that holds the empty array empties the history and leaves the stats
  (claim C6), and \<^verbatim>\<open>get_statistics\<close> returns a record that counts one decision.
\<close>

theorem emptied_history_counterexample:
  "calculate_rate (init_agent None) (scenario None) ''2025-01-01T00:00:00''
     = Inr (scenario_decision None ''2025-01-01T00:00:00'',
            scenario_agent None ''2025-01-01T00:00:00'')
   \<and> load_decisions (scenario_agent None ''2025-01-01T00:00:00'')
        [''empty.json'' \<mapsto> []] ''empty.json''
       = Inr (emptied_agent ''2025-01-01T00:00:00'')
   \<and> decision_history (emptied_agent ''2025-01-01T00:00:00'') = []
   \<and> get_statistics (emptied_agent ''2025-01-01T00:00:00'')
       = Inr [(''total_decisions'', PInt 1), (''avg_adjustment'', PFloat (- (83 / 10000))),
              (''total_profit'', PFloat (111324 / 100)), (''default_rate'', PFloat 0)]
   \<and> get_statistics (emptied_agent ''2025-01-01T00:00:00'')
       \<noteq> Inr [(''total_decisions'', PInt 0), (''avg_adjustment'', PFloat 0),
              (''total_profit'', PFloat 0), (''default_rate'', PFloat 0)]"
  by (simp add: scenario_run)
     (simp add: load_decisions_def emptied_agent_def get_statistics_def stats_dict_def
       scenario_agent_def)

section \<open>Windowed and cumulative statistics\<close>

lemma field_ok_num:
  "field_ok d k \<Longrightarrow>
     \<exists>v n. get_item d k = Inr v \<and> as_num v = Inr n \<and> to_float n = Inr (numf d k)"
  by (auto simp: field_ok_def numf_def split: sum.splits dest!: in_double_range_num)

lemma collect_floats:
  "list_all (\<lambda>d. field_ok d k) ds \<Longrightarrow>
     \<exists>vs. collect ds k = Inr vs \<and> floats_of vs = Inr (map (\<lambda>d. numf d k) ds)"
proof (induction ds)
  case Nil
  then show ?case by simp
next
  case (Cons d ds)
  then obtain vs where vs: "collect ds k = Inr vs" "floats_of vs = Inr (map (\<lambda>d. numf d k) ds)"
    by auto
  from Cons.prems obtain v n where v: "get_item d k = Inr v" "as_num v = Inr n"
    "to_float n = Inr (numf d k)"
    by (auto dest: field_ok_num)
  show ?case by (simp add: vs v)
qed

lemma mean_of_ok:
  "list_all (\<lambda>d. field_ok d k) ds \<Longrightarrow> ds \<noteq> [] \<Longrightarrow>
     mean_of ds k = Inr (average (map (\<lambda>d. numf d k) ds))"
  by (auto simp: mean_of_def np_mean_def average_def dest!: collect_floats)

lemma log_decision_step:
  assumes h: "list_all (\<lambda>d. field_ok d ''total_adjustment'') (decision_history ag)"
    and d: "decision_ok d"
  shows "log_decision ag d =
     Inr (ag\<lparr>decision_history := decision_history ag @ [d],
             stats := (stats ag)
               \<lparr>total_decisions := total_decisions (stats ag) + 1,
                avg_adjustment :=
                  average (map (\<lambda>d. numf d ''total_adjustment'') (decision_history ag @ [d])),
                total_profit := total_profit (stats ag) + numf d ''expected_profit''\<rparr>\<rparr>)"
proof -
  from h d have "list_all (\<lambda>d. field_ok d ''total_adjustment'') (decision_history ag @ [d])"
    by (simp add: decision_ok_def)
  then have m: "mean_of (decision_history ag @ [d]) ''total_adjustment''
      = Inr (average (map (\<lambda>d. numf d ''total_adjustment'') (decision_history ag @ [d])))"
    by (rule mean_of_ok) simp
  from d obtain v n where v: "get_item d ''expected_profit'' = Inr v" "as_num v = Inr n"
    "to_float n = Inr (numf d ''expected_profit'')"
    unfolding decision_ok_def by (blast dest: field_ok_num)
  have "log_decision ag d
      = bindE (mean_of (decision_history ag @ [d]) ''total_adjustment'') (\<lambda>avg.
          bindE (get_item d ''expected_profit'') (\<lambda>p.
          bindE (as_num p) (\<lambda>pn.
          bindE (to_float pn) (\<lambda>pf.
           Inr (ag\<lparr>decision_history := decision_history ag @ [d],
                   stats := (stats ag)\<lparr>total_decisions := total_decisions (stats ag) + 1,
                                         avg_adjustment := avg,
                                         total_profit := total_profit (stats ag) + pf\<rparr>\<rparr>)))))"
    by (simp add: log_decision_def mean_of_def Let_def bindE_def split: sum.splits)
  then show ?thesis by (simp add: m v)
qed

lemma log_all_ok:
  "list_all decision_ok ds \<Longrightarrow> list_all decision_ok (decision_history ag) \<Longrightarrow>
     \<exists>ag'. log_all ag ds = Inr ag'
        \<and> decision_history ag' = decision_history ag @ ds
        \<and> total_decisions (stats ag') = total_decisions (stats ag) + int (length ds)
        \<and> total_profit (stats ag')
            = total_profit (stats ag) + sum_list (map (\<lambda>d. numf d ''expected_profit'') ds)"
proof (induction ds arbitrary: ag)
  case Nil
  then show ?case by simp
next
  case (Cons d ds)
  from Cons.prems have d: "decision_ok d" and ds: "list_all decision_ok ds" by simp_all
  from Cons.prems(2) have h: "list_all (\<lambda>d. field_ok d ''total_adjustment'') (decision_history ag)"
    by (simp add: list_all_iff decision_ok_def)
  define ag1 where "ag1 = ag\<lparr>decision_history := decision_history ag @ [d],
             stats := (stats ag)
               \<lparr>total_decisions := total_decisions (stats ag) + 1,
                avg_adjustment :=
                  average (map (\<lambda>d. numf d ''total_adjustment'') (decision_history ag @ [d])),
                total_profit := total_profit (stats ag) + numf d ''expected_profit''\<rparr>\<rparr>"
  have step: "log_decision ag d = Inr ag1"
    unfolding ag1_def using h d by (rule log_decision_step)
  have "list_all decision_ok (decision_history ag1)"
    using Cons.prems(2) d by (simp add: ag1_def)
  from Cons.IH [OF ds this] obtain ag' where ag': "log_all ag1 ds = Inr ag'"
    "decision_history ag' = decision_history ag1 @ ds"
    "total_decisions (stats ag') = total_decisions (stats ag1) + int (length ds)"
    "total_profit (stats ag')
       = total_profit (stats ag1) + sum_list (map (\<lambda>d. numf d ''expected_profit'') ds)"
    by blast
  show ?case using step ag' by (simp add: ag1_def)
qed

lemma last_n_nonempty: "ds \<noteq> [] \<Longrightarrow> last_n 100 ds \<noteq> []"
  by (cases ds) (simp_all add: last_n_def)

lemma last_n_all: "list_all P ds \<Longrightarrow> list_all P (last_n n ds)"
  by (auto simp: last_n_def list_all_iff dest: in_set_dropD)

text \<open>
  Claim C4. After more than 100 decisions have been appended to a fresh agent,
  \<^verbatim>\<open>get_statistics\<close> returns the means of \<open>total_adjustment\<close>, \<open>final_rate\<close> and
  \<open>default_probability\<close> over the last 100 decisions only, each rounded to four places,
  while \<open>total_decisions\<close> counts every decision appended and \<open>total_expected_profit\<close>
  is the sum of the expected profit of every decision appended, rounded to two places.
\<close>

theorem windowed_statistics:
  "100 < length ds \<Longrightarrow> list_all decision_ok ds \<Longrightarrow>
     \<exists>ag. log_all (init_agent c) ds = Inr ag
        \<and> decision_history ag = ds
        \<and> length (drop (length ds - 100) ds) = 100
        \<and> get_statistics ag = Inr
            [(''total_decisions'', PInt (int (length ds))),
             (''avg_rate_adjustment'',
                PFloat (py_round (average (map (\<lambda>d. numf d ''total_adjustment'')
                                              (drop (length ds - 100) ds))) 4)),
             (''avg_final_rate'',
                PFloat (py_round (average (map (\<lambda>d. numf d ''final_rate'')
                                              (drop (length ds - 100) ds))) 4)),
             (''total_expected_profit'',
                PFloat (py_round (sum_list (map (\<lambda>d. numf d ''expected_profit'') ds)) 2)),
             (''avg_default_probability'',
                PFloat (py_round (average (map (\<lambda>d. numf d ''default_probability'')
                                              (drop (length ds - 100) ds))) 4))]"
proof -
  assume len: "100 < length ds" and ok: "list_all decision_ok ds"
  have "list_all decision_ok (decision_history (init_agent c))"
    by (simp add: init_agent_def)
  from log_all_ok [OF ok this] obtain ag where ag: "log_all (init_agent c) ds = Inr ag"
    and h: "decision_history ag = ds"
    and n: "total_decisions (stats ag) = int (length ds)"
    and p: "total_profit (stats ag) = sum_list (map (\<lambda>d. numf d ''expected_profit'') ds)"
    by (auto simp: init_agent_def)
  from len have ne: "ds \<noteq> []" by auto
  have w: "list_all decision_ok (last_n 100 ds)" using ok by (rule last_n_all)
  have wne: "last_n 100 ds \<noteq> []" using ne by (rule last_n_nonempty)
  have m: "mean_of (last_n 100 ds) k = Inr (average (map (\<lambda>d. numf d k) (last_n 100 ds)))"
    if "k \<in> {''total_adjustment'', ''final_rate'', ''default_probability''}" for k
  proof -
    have "list_all (\<lambda>d. field_ok d k) (last_n 100 ds)"
      using w that by (auto simp: list_all_iff decision_ok_def)
    then show ?thesis using wne by (rule mean_of_ok)
  qed
  have l: "length (drop (length ds - 100) ds) = 100" using len by simp
  have "get_statistics ag = Inr
            [(''total_decisions'', PInt (int (length ds))),
             (''avg_rate_adjustment'',
                PFloat (py_round (average (map (\<lambda>d. numf d ''total_adjustment'')
                                              (last_n 100 ds))) 4)),
             (''avg_final_rate'',
                PFloat (py_round (average (map (\<lambda>d. numf d ''final_rate'')
                                              (last_n 100 ds))) 4)),
             (''total_expected_profit'',
                PFloat (py_round (sum_list (map (\<lambda>d. numf d ''expected_profit'') ds)) 2)),
             (''avg_default_probability'',
                PFloat (py_round (average (map (\<lambda>d. numf d ''default_probability'')
                                              (last_n 100 ds))) 4))]"
    using ne by (simp add: get_statistics_def h Let_def m n p)
  then show ?thesis using ag h l unfolding last_n_def by blast
qed

lemma long_history_ok: "list_all decision_ok long_history"
  using dbl_limit_gt_1
  by (simp add: long_history_def list_all_iff early_decision_def scenario_decision_def
      decision_ok_def field_ok_def in_double_range_def)

text \<open>
  On a history of one early decision followed by 100 copies of the scenario's decision the
  window leaves the early decision out: the mean final rate reported is 0.1117, where the
  mean over all 101 decisions would be 0.1142.
\<close>

lemma average_replicate: "0 < n \<Longrightarrow> average (replicate n x) = x"
  by (simp add: average_def sum_list_replicate)

lemma long_history_length: "length long_history = 101"
  by (simp add: long_history_def)

lemma long_history_window:
  "drop (length long_history - 100) long_history
     = replicate 100 (scenario_decision None ''2025-01-01T00:00:00'')"
  by (simp add: long_history_def)

lemma scenario_numf:
  "numf (scenario_decision None now) ''total_adjustment'' = - (83 / 10000)"
  "numf (scenario_decision None now) ''final_rate'' = 1117 / 10000"
  "numf (scenario_decision None now) ''default_probability'' = 732 / 10000"
  "numf (scenario_decision None now) ''expected_profit'' = 111324 / 100"
  by (simp_all add: numf_def scenario_decision_def)

lemma early_numf:
  "numf early_decision ''final_rate'' = 36 / 100"
  "numf early_decision ''expected_profit'' = - 1000"
  by (simp_all add: numf_def early_decision_def)

lemma long_history_values:
  "py_round (average (map (\<lambda>d. numf d ''total_adjustment'')
      (drop (length long_history - 100) long_history))) 4 = - (83 / 10000)"
  "py_round (average (map (\<lambda>d. numf d ''final_rate'')
      (drop (length long_history - 100) long_history))) 4 = 1117 / 10000"
  "py_round (average (map (\<lambda>d. numf d ''default_probability'')
      (drop (length long_history - 100) long_history))) 4 = 732 / 10000"
  "py_round (sum_list (map (\<lambda>d. numf d ''expected_profit'') long_history)) 2 = 110324"
  using py_round_near [of "- 83" "- (83 / 10000)" 4] py_round_near [of 1117 "1117 / 10000" 4]
    py_round_near [of 732 "732 / 10000" 4] py_round_near [of 11032400 110324 2]
  by (simp_all add: long_history_window average_replicate scenario_numf)
     (simp_all add: long_history_def early_numf scenario_numf sum_list_replicate)

lemma long_history_all_mean:
  "py_round (average (map (\<lambda>d. numf d ''final_rate'') long_history)) 4 = 1142 / 10000"
  using py_round_near [of 1142 "1153 / 10100" 4]
  by (simp add: long_history_def average_def early_numf scenario_numf sum_list_replicate)

theorem windowed_statistics_witness:
  "100 < length long_history \<and> list_all decision_ok long_history
   \<and> (\<exists>ag. log_all (init_agent None) long_history = Inr ag
        \<and> decision_history ag = long_history
        \<and> get_statistics ag = Inr
            [(''total_decisions'', PInt 101),
             (''avg_rate_adjustment'', PFloat (- (83 / 10000))),
             (''avg_final_rate'', PFloat (1117 / 10000)),
             (''total_expected_profit'', PFloat 110324),
             (''avg_default_probability'', PFloat (732 / 10000))])
   \<and> py_round (average (map (\<lambda>d. numf d ''final_rate'') long_history)) 4 = 1142 / 10000"
proof -
  have len: "100 < length long_history" by (simp add: long_history_def)
  from windowed_statistics [OF len long_history_ok, of None] obtain ag where
    a: "log_all (init_agent None) long_history = Inr ag"
    and h: "decision_history ag = long_history"
    and g: "get_statistics ag = Inr
            [(''total_decisions'', PInt (int (length long_history))),
             (''avg_rate_adjustment'',
                PFloat (py_round (average (map (\<lambda>d. numf d ''total_adjustment'')
                                  (drop (length long_history - 100) long_history))) 4)),
             (''avg_final_rate'',
                PFloat (py_round (average (map (\<lambda>d. numf d ''final_rate'')
                                  (drop (length long_history - 100) long_history))) 4)),
             (''total_expected_profit'',
                PFloat (py_round (sum_list (map (\<lambda>d. numf d ''expected_profit'')
                                   long_history)) 2)),
             (''avg_default_probability'',
                PFloat (py_round (average (map (\<lambda>d. numf d ''default_probability'')
                                  (drop (length long_history - 100) long_history))) 4))]"
    by blast
  have n: "int (length long_history) = 101" by (simp add: long_history_length)
  have g': "get_statistics ag = Inr
            [(''total_decisions'', PInt 101),
             (''avg_rate_adjustment'', PFloat (- (83 / 10000))),
             (''avg_final_rate'', PFloat (1117 / 10000)),
             (''total_expected_profit'', PFloat 110324),
             (''avg_default_probability'', PFloat (732 / 10000))]"
    unfolding g long_history_values n by (rule refl)
  show ?thesis using len long_history_ok a h g' long_history_all_mean by blast
qed

text \<open>Every decision that pricing returns is one the statistics are defined on.\<close>

lemma calculate_rate_decision_ok:
  assumes "calculate_rate ag ap now = Inr (d, ag')"
  shows "decision_ok d \<and> log_decision ag d = Inr ag'"
  using assms
  by (rule calculate_rate_InrD) (simp add: decision_ok_def field_ok_def in_double_range_def)

section \<open>Export followed by import\<close>

lemma of_json_to_json: "json_native v \<Longrightarrow> of_json (to_json v) = v"
proof (induction v)
  case (PList xs)
  then show ?case by (simp add: map_idI)
next
  case (PDict kvs)
  have "map (map_prod id of_json \<circ> map_prod id to_json) kvs = kvs"
  proof (rule map_idI)
    fix kv assume kv: "kv \<in> set kvs"
    obtain k v where p: "kv = (k, v)" by (cases kv)
    with kv PDict.prems have "json_native v" by fastforce
    moreover from kv p have "v \<in> Basic_BNFs.snds kv" by simp
    ultimately have "of_json (to_json v) = v" using PDict.IH kv by blast
    then show "(map_prod id of_json \<circ> map_prod id to_json) kv = kv" using p by simp
  qed
  then show ?case by simp
qed simp_all

lemma history_roundtrip:
  "list_all storable h \<Longrightarrow> map (of_json \<circ> to_json) h = h"
  by (induction h) (simp_all add: of_json_to_json storable_def)

lemma storable_export:
  assumes "list_all storable (decision_history ag)"
  shows "export_decisions ag fs filepath
           = Inr (fs(filepath \<mapsto> map to_json (decision_history ag)))"
proof -
  from assms have "list_all printable (decision_history ag)"
    by (simp add: list_all_iff storable_def)
  then show ?thesis by (simp add: export_decisions_def)
qed

text \<open>The integers that pricing accepts are far shorter than 4300 digits.\<close>

lemma dbl_limit_le: "dbl_limit \<le> 10 ^ 1024"
proof -
  have "dbl_limit \<le> 2 ^ 1024" unfolding dbl_limit_def by (rule diff_left_mono [where c = 0 and a = "2 ^ 1024", simplified]) simp
  also have "(2::rat) ^ 1024 \<le> 10 ^ 1024" by (rule power_mono) simp_all
  finally show ?thesis .
qed

lemma str_limit_large: "600 * dbl_limit + 300 \<le> (10::rat) ^ 4300"
proof -
  define x :: rat where "x = 10 ^ 1024"
  have one: "1 \<le> x" unfolding x_def by (rule one_le_power) simp
  have d: "dbl_limit \<le> x" unfolding x_def by (rule dbl_limit_le)
  have "600 * dbl_limit + 300 \<le> 10 ^ 3 * x" using one d by simp
  also have "\<dots> = (10::rat) ^ (3 + 1024)" unfolding x_def by (rule power_add [symmetric])
  also have "\<dots> \<le> (10::rat) ^ 4300" by (rule power_increasing) simp_all
  finally show ?thesis .
qed

lemma int_str_limit_rat: "(of_int int_str_limit :: rat) = 10 ^ 4300"
  unfolding int_str_limit_def by (simp only: of_int_power of_int_numeral)

lemma short_int:
  assumes "\<bar>of_int i :: rat\<bar> < 600 * dbl_limit + 300"
  shows "\<bar>i\<bar> < int_str_limit"
proof -
  have "\<bar>of_int i :: rat\<bar> < 10 ^ 4300" using assms str_limit_large by (rule less_le_trans)
  then have "(of_int \<bar>i\<bar> :: rat) < of_int int_str_limit"
    by (simp only: of_int_abs int_str_limit_rat)
  then show ?thesis by (simp only: of_int_less_iff)
qed

lemma normalize_score_short:
  assumes "normalize_score (PInt i) country = Inr x"
  shows "\<bar>i\<bar> < int_str_limit"
proof -
  have "\<exists>k::int. 0 < k \<and> k \<le> 600 \<and> py_truediv (NInt (i - 300)) (NInt k) = Inr x"
  proof (cases "country = PStr ''USA''")
    case True
    with assms have "py_truediv (NInt (i - 300)) (NInt 550) = Inr x"
      by (simp add: normalize_score_def)
    then show ?thesis by (intro exI [of _ 550]) simp
  next
    case False
    with assms have "py_truediv (NInt (i - 300)) (NInt 600) = Inr x"
      by (simp add: normalize_score_def)
    then show ?thesis by (intro exI [of _ 600]) simp
  qed
  then obtain k :: int where k: "0 < k" "k \<le> 600"
    and q: "py_truediv (NInt (i - 300)) (NInt k) = Inr x"
    by blast
  from q k have "\<bar>of_int (i - 300) / of_int k :: rat\<bar> < dbl_limit"
    by (simp add: py_truediv.simps split: if_splits)
  then have "\<bar>of_int (i - 300) :: rat\<bar> < dbl_limit * of_int k"
    using k by (simp add: pos_divide_less_eq)
  also have "\<dots> \<le> dbl_limit * 600"
    using k dbl_limit_ge_1 by (intro mult_left_mono) simp_all
  finally have "\<bar>of_int i - 300 :: rat\<bar> < 600 * dbl_limit" by (simp add: mult.commute)
  then have "\<bar>of_int i :: rat\<bar> < 600 * dbl_limit + 300" by linarith
  then show ?thesis by (rule short_int)
qed

lemma expected_profit_short:
  assumes "calculate_expected_profit (PInt i) r p = Inr e"
  shows "\<bar>i\<bar> < int_str_limit"
proof -
  from assms have "\<bar>of_int i :: rat\<bar> < dbl_limit"
    by (simp add: calculate_expected_profit_def py_mul_float_def int_to_float_def
        split: if_splits)
  also have "dbl_limit \<le> 600 * dbl_limit + 300" using dbl_limit_ge_1 by simp
  finally show ?thesis by (rule short_int)
qed

lemma log_decision_history:
  "log_decision ag d = Inr ag' \<Longrightarrow> decision_history ag' = decision_history ag @ [d]"
  unfolding log_decision_def Let_def bindE_eq_Inr by auto

lemma calculate_rate_profit:
  assumes "calculate_rate ag ap now = Inr (d, ag')"
  shows "\<exists>l r p e. lookup ap ''loan_amount'' = Inr l \<and> calculate_expected_profit l r p = Inr e"
  using assms unfolding calculate_rate_def Let_def bindE_eq_Inr by blast

lemma calculate_rate_score:
  assumes "calculate_rate ag ap now = Inr (d, ag')"
  shows "\<exists>s c x. lookup ap ''credit_score'' = Inr s \<and> normalize_score s c = Inr x"
proof -
  from assms obtain risk where "calculate_risk_adjustment ap = Inr risk"
    by (rule calculate_rate_InrD)
  then show ?thesis unfolding calculate_risk_adjustment_def bindE_eq_Inr by blast
qed

text \<open>A decision priced from a typed applicant can be stored.\<close>

lemma calculate_rate_storable:
  assumes run: "calculate_rate ag ap now = Inr (d, ag')" and ty: "typed_applicant ap"
  shows "storable d \<and> decision_history ag' = decision_history ag @ [d]"
proof -
  from calculate_rate_profit [OF run] obtain l r p e where
    l: "lookup ap ''loan_amount'' = Inr l" and e: "calculate_expected_profit l r p = Inr e"
    by blast
  from calculate_rate_score [OF run] obtain s c x where
    s: "lookup ap ''credit_score'' = Inr s" and n: "normalize_score s c = Inr x"
    by blast
  from s ty obtain i where i: "s = PInt i"
    by (cases s) (auto simp: lookup_def typed_applicant_def typed_field_def split: option.splits)
  with n have si: "\<bar>i\<bar> < int_str_limit" by (simp add: normalize_score_short)
  from l ty have "is_real l"
    by (auto simp: lookup_def typed_applicant_def typed_field_def split: option.splits)
  with e have sl: "storable l"
    by (cases l) (auto simp: storable_def dest: expected_profit_short)
  have sid: "storable (get_default ap ''id'' (PStr ''unknown''))"
  proof (cases "ap ''id''")
    case None
    then show ?thesis by (simp add: get_default_def storable_def)
  next
    case (Some v)
    with ty have "is_str v" by (simp add: typed_applicant_def typed_field_def)
    then show ?thesis using Some by (cases v) (simp_all add: get_default_def storable_def)
  qed
  show ?thesis
    using run
  proof (rule calculate_rate_InrD)
    fix country base_rate risk market profit total default_prob loan_amount expected_profit
      credit_score reasoning
    assume c: "lookup ap ''country'' = Inr country"
      and l': "lookup ap ''loan_amount'' = Inr loan_amount"
      and s': "lookup ap ''credit_score'' = Inr credit_score"
      and lg: "log_decision ag d = Inr ag'"
      and d: "d = PDict
             [(''timestamp'', PStr now),
              (''applicant_id'', get_default ap ''id'' (PStr ''unknown'')),
              (''country'', country),
              (''credit_score'', credit_score),
              (''loan_amount'', loan_amount),
              (''base_rate'', PFloat (py_round base_rate 4)),
              (''risk_adjustment'', PFloat (py_round risk 4)),
              (''market_adjustment'', PFloat (py_round market 4)),
              (''profit_adjustment'', PFloat (py_round profit 4)),
              (''total_adjustment'',
                 PFloat (py_round total 4)),
              (''final_rate'',
                 PFloat (py_round (max min_rate (min max_rate (base_rate + total))) 4)),
              (''default_probability'', PFloat (py_round default_prob 4)),
              (''expected_profit'', PFloat (py_round expected_profit 2)),
              (''reasoning'', PList (map PStr reasoning))]"
    from c ty have "is_str country"
      by (auto simp: lookup_def typed_applicant_def typed_field_def split: option.splits)
    then have sc: "storable country" by (cases country) (simp_all add: storable_def)
    from l l' sl have sl': "storable loan_amount" by simp
    from s s' i si have ss: "storable credit_score" by (simp add: storable_def)
    have "storable d" using sid sc sl' ss unfolding d by (auto simp: storable_def)
    then show ?thesis using lg by (simp add: log_decision_history)
  qed
qed

lemma step_stored_ok:
  assumes "typed_action a" and "stored_ok st" and "step a st = Inr st'"
  shows "stored_ok st'"
proof (cases st)
  case (Pair ag fs)
  show ?thesis
  proof (cases a)
    case (Price ap now)
    with assms Pair obtain d ag' where r: "calculate_rate ag ap now = Inr (d, ag')"
      and st': "st' = (ag', fs)"
      by (auto simp: bindE_eq_Inr)
    from assms(1) Price have "typed_applicant ap" by simp
    from calculate_rate_storable [OF r this] assms(2) Pair st'
    show ?thesis by (simp add: stored_ok_def)
  next
    case (Export filepath)
    from assms(2) Pair have h: "list_all storable (decision_history ag)"
      by (simp add: stored_ok_def)
    with assms(3) Pair Export
    have st': "st' = (ag, fs(filepath \<mapsto> map to_json (decision_history ag)))"
      by (simp add: storable_export)
    show ?thesis using assms(2) Pair h unfolding st'
      by (auto simp: stored_ok_def history_roundtrip)
  next
    case (Load filepath)
    with assms Pair obtain js where js: "fs filepath = Some js"
      and st': "st' = (ag\<lparr>decision_history := map of_json js\<rparr>, fs)"
      by (auto simp: load_decisions_def split: option.splits)
    show ?thesis using assms(2) Pair js unfolding st' by (auto simp: stored_ok_def)
  qed
qed

lemma run_stored_ok:
  "list_all typed_action acts \<Longrightarrow> stored_ok st \<Longrightarrow> run acts st = Inr st' \<Longrightarrow> stored_ok st'"
proof (induction acts arbitrary: st)
  case Nil
  then show ?case by simp
next
  case (Cons a acts)
  from Cons.prems(3) obtain mid where m: "step a st = Inr mid" and r: "run acts mid = Inr st'"
    by (auto simp: bindE_eq_Inr)
  from Cons.prems(1) have "typed_action a" "list_all typed_action acts" by simp_all
  from step_stored_ok [OF this(1) Cons.prems(2) m] Cons.IH [OF this(2) _ r]
  show ?case by blast
qed

text \<open>
  Claim C5. Every decision history that an agent comes to hold in a session that starts
  from a freshly constructed agent and an empty file system, and in which every applicant
  priced has the typed fields of the data model, is written by \<^verbatim>\<open>export_decisions\<close>
  without an error, and \<^verbatim>\<open>load_decisions\<close> on the exported file, by the same agent or
  another, makes that agent's history equal to the exported one, record for record and
  field for field, in value and in type.
\<close>

theorem export_load_roundtrip:
  "list_all typed_action acts \<Longrightarrow> run acts (init_agent c, Map.empty) = Inr (ag, fs) \<Longrightarrow>
     \<exists>fs'. export_decisions ag fs filepath = Inr fs'
        \<and> fs' filepath = Some (map to_json (decision_history ag))
        \<and> load_decisions other fs' filepath
            = Inr (other\<lparr>decision_history := decision_history ag\<rparr>)"
proof -
  assume ty: "list_all typed_action acts"
    and r: "run acts (init_agent c, Map.empty) = Inr (ag, fs)"
  have "stored_ok (init_agent c, Map.empty)" by (simp add: stored_ok_def init_agent_def)
  from run_stored_ok [OF ty this r] have h: "list_all storable (decision_history ag)"
    by (simp add: stored_ok_def)
  then show ?thesis
    by (simp add: storable_export load_decisions_def history_roundtrip)
qed

lemma scenario_typed: "typed_applicant (scenario None)"
  by (simp add: typed_applicant_def typed_field_def scenario_def)

lemma session_run:
  "run session (init_agent None, Map.empty)
     = Inr (scenario_agent None ''2025-01-01T00:00:00'',
            [''d.json'' \<mapsto> [to_json (scenario_decision None ''2025-01-01T00:00:00'')]])"
proof -
  have h: "decision_history (scenario_agent None ''2025-01-01T00:00:00'')
             = [scenario_decision None ''2025-01-01T00:00:00'']"
    by (simp add: scenario_agent_def init_agent_def)
  have n: "json_native (scenario_decision None ''2025-01-01T00:00:00'')"
    by (simp add: scenario_decision_def)
  have "(100::rat) \<le> dbl_limit" using dbl_limit_large by simp
  then have p: "printable (scenario_decision None ''2025-01-01T00:00:00'')"
    using short_int [of 720] short_int [of 15000] by (simp add: scenario_decision_def)
  have e: "export_decisions (scenario_agent None ''2025-01-01T00:00:00'') Map.empty ''d.json''
             = Inr [''d.json'' \<mapsto> [to_json (scenario_decision None ''2025-01-01T00:00:00'')]]"
    by (simp add: export_decisions_def h p)
  have l: "load_decisions (scenario_agent None ''2025-01-01T00:00:00'')
               [''d.json'' \<mapsto> [to_json (scenario_decision None ''2025-01-01T00:00:00'')]]
               ''d.json''
             = Inr (scenario_agent None ''2025-01-01T00:00:00'')"
    using h by (simp add: load_decisions_def of_json_to_json [OF n])
  show ?thesis by (simp add: session_def scenario_run e l)
qed

theorem export_load_roundtrip_witness:
  "list_all typed_action session
   \<and> run session (init_agent None, Map.empty)
       = Inr (scenario_agent None ''2025-01-01T00:00:00'',
              [''d.json'' \<mapsto> [to_json (scenario_decision None ''2025-01-01T00:00:00'')]])
   \<and> (\<exists>fs'. export_decisions (scenario_agent None ''2025-01-01T00:00:00'')
                [''d.json'' \<mapsto> [to_json (scenario_decision None ''2025-01-01T00:00:00'')]]
                ''e.json'' = Inr fs'
          \<and> fs' ''e.json''
              = Some (map to_json (decision_history (scenario_agent None ''2025-01-01T00:00:00'')))
          \<and> load_decisions (init_agent None) fs' ''e.json''
              = Inr ((init_agent None)
                      \<lparr>decision_history :=
                         decision_history (scenario_agent None ''2025-01-01T00:00:00'')\<rparr>))"
proof -
  have ty: "list_all typed_action session" by (simp add: session_def scenario_typed)
  from export_load_roundtrip [OF ty session_run, where filepath = "''e.json''"
      and other = "init_agent None"]
  show ?thesis using ty session_run by simp
qed

text \<open>
  Outside these sessions the round trip can fail. A history put into the agent directly
  that holds an integer of 4301 digits is not written at all, and a tuple, which pricing
  accepts as an applicant's id, is read back as a list.
\<close>

lemma big_score_not_exported:
  "export_decisions ((init_agent None)\<lparr>decision_history := big_score_history\<rparr>) fs filepath
     = Inl ValueError"
  by (simp add: export_decisions_def big_score_history_def)

lemma tuple_reads_back_as_list: "of_json (to_json tuple_id) = list_id"
  by (simp add: tuple_id_def list_id_def)

end
